theory Spec2Isabelle
  imports
    Main
    "HOL-Library.Word"
    "HOL-Library.Multiset"
    "HOL-Library.Char_ord"
    "HOL-Library.List_Lexorder"
    "HOL-Library.Sublist"
begin

section \<open>Go strings\<close>

text \<open>
  A Go string is a sequence of bytes; it is modelled as a \<^typ>\<open>string\<close> (a list of 8-bit
  characters).  The functions of package \<open>strings\<close> that the plugins call are modelled on
  that representation.

  \<open>strings.ToLower\<close> and \<open>strings.ToUpper\<close> first scan the string for a byte from
  \<open>0x80\<close> (\<open>utf8.RuneSelf\<close>) on.  When there is none, the letters are mapped bytewise
  (\<open>c += 'a' - 'A'\<close> for \<open>'A' <= c <= 'Z'\<close>, and the converse).  Otherwise the result is
  \<open>Map(unicode.ToLower, s)\<close>, respectively \<open>Map(unicode.ToUpper, s)\<close>, which decodes the
  string as UTF-8 and maps every rune through the Unicode tables; these two functions are
  parameters of the model.
\<close>

record unicode_maps =
  Map_unicode_ToLower :: "string \<Rightarrow> string"
  Map_unicode_ToUpper :: "string \<Rightarrow> string"

definition isASCII :: "string \<Rightarrow> bool" where
  "isASCII s = list_all (\<lambda>c. (of_char c :: nat) < 128) s"

definition to_lower_byte :: "char \<Rightarrow> char" where
  "to_lower_byte c =
     (if CHR ''A'' \<le> c \<and> c \<le> CHR ''Z'' then char_of (of_char c + 32 :: nat) else c)"

definition to_upper_byte :: "char \<Rightarrow> char" where
  "to_upper_byte c =
     (if CHR ''a'' \<le> c \<and> c \<le> CHR ''z'' then char_of (of_char c - 32 :: nat) else c)"

definition ToLower :: "unicode_maps \<Rightarrow> string \<Rightarrow> string" where
  "ToLower u s = (if isASCII s then map to_lower_byte s else Map_unicode_ToLower u s)"

definition ToUpper :: "unicode_maps \<Rightarrow> string \<Rightarrow> string" where
  "ToUpper u s = (if isASCII s then map to_upper_byte s else Map_unicode_ToUpper u s)"

text \<open>
  \<open>strings.Split(s, sep)\<close> for a separator of one byte (the source splits on \<open>" "\<close> and on
  \<open>","\<close> only): the substrings between the separators, so that a string with \<open>n\<close> separators
  gives \<open>n + 1\<close> substrings and the empty string gives one empty substring.
\<close>

fun Split :: "string \<Rightarrow> char \<Rightarrow> string list" where
  "Split [] sep = [[]]"
| "Split (c # cs) sep =
     (if c = sep then [] # Split cs sep
      else (case Split cs sep of
              [] \<Rightarrow> [[c]]
            | w # ws \<Rightarrow> (c # w) # ws))"

text \<open>\<open>strings.Join(elems, sep)\<close>.\<close>

fun Join :: "string list \<Rightarrow> string \<Rightarrow> string" where
  "Join [] sep = []"
| "Join [x] sep = x"
| "Join (x # y # ys) sep = x @ sep @ Join (y # ys) sep"

text \<open>
  \<open>strings.ReplaceAll(s, old, new)\<close>: the non-overlapping occurrences of \<open>old\<close> are replaced
  from left to right.  For an empty \<open>old\<close> Go inserts \<open>new\<close> in front of every character and
  at the end.
\<close>

function ReplaceAll :: "string \<Rightarrow> string \<Rightarrow> string \<Rightarrow> string" where
  "ReplaceAll [] old new = (if old = [] then new else [])"
| "ReplaceAll (c # cs) old new =
     (if old = [] then new @ c # ReplaceAll cs old new
      else if prefix old (c # cs) then new @ ReplaceAll (drop (length old) (c # cs)) old new
      else c # ReplaceAll cs old new)"
  by pat_completeness auto
termination
  by (relation "measure (\<lambda>(s, old, new). length s)") auto

section \<open>The web search plugin\<close>

record WoxImage =
  ImageType :: string
  ImageData :: string

text \<open>
  The default icon, \<open>plugin.NewWoxImageSvg(...)\<close>: an image of type \<open>svg\<close> whose data is
  the SVG text of the source.
\<close>

definition webSearchIconSvg :: string where
  \<open>webSearchIconSvg = ''<svg t="1700799533400" class="icon" viewBox="0 0 1024 1024" version="1.1" xmlns="http://www.w3.org/2000/svg" p-id="8846" width="200" height="200"><path d="M869.484748 1024a96.009331 96.009331 0 0 1-76.327418-37.923686l-174.736982-228.982254a96.009331 96.009331 0 0 1 152.654836-116.651337l174.736982 228.982254a96.009331 96.009331 0 0 1-76.327418 154.094976z" fill="#D34233" p-id="8847"></path><path d="M770.595138 640.92277a96.009331 96.009331 0 0 0-100.809798-34.563359 240.023327 240.023327 0 0 1-57.605598 65.766391c-3.360327 2.400233-7.2007 4.32042-11.041074 6.720653a96.009331 96.009331 0 0 0 16.801633 79.687745l70.566859 92.649004a432.041989 432.041989 0 0 0 39.843872-26.882612A429.161709 429.161709 0 0 0 826.760596 715.810048z" fill="#C1211A" p-id="8848"></path><path d="M490.727938 864.144464a432.041989 432.041989 0 1 1 261.625427-88.328584A432.041989 432.041989 0 0 1 490.727938 864.144464zM490.727938 192.079148a240.023327 240.023327 0 1 0 192.018662 96.009331 240.023327 240.023327 0 0 0-192.018662-96.009331z" fill="#F16A54" p-id="8849"></path></svg>''\<close>

definition webSearchIcon :: WoxImage where
  "webSearchIcon = \<lparr>ImageType = ''svg'', ImageData = webSearchIconSvg\<rparr>"

record webSearch =
  Urls :: "string list"
  ws_Title :: string
  Keyword :: string
  IsFallback :: bool
  ws_Icon :: WoxImage
  Enabled :: bool

text \<open>
  The plugin holds its configured searches (the \<open>api\<close> field is the host interface, whose
  calls are parameters of the functions that use it).  Of a query the plugins read
  \<open>RawQuery\<close> only.
\<close>

record WebSearchPlugin =
  webSearches :: "webSearch list"

record Query =
  RawQuery :: string

text \<open>
  An action is a Go closure.  It is represented by a tag for its body together with the
  values the closure captures; a closure built in the body of a \<open>for ... range\<close> loop
  captures the variables of its own iteration (the loop variable semantics of Go 1.22).
\<close>

datatype Action =
    NoAction
  | ShellOpenUrls "string list" string
  | FocusToChatInput
  | DeleteChat nat string
  | SummarizeChat

record QueryResultAction =
  Name :: string
  act_Icon :: WoxImage
  PreventHideAfterAction :: bool
  Action :: Action

record WoxPreview =
  PreviewType :: string
  PreviewData :: string
  ScrollPosition :: string

text \<open>
  \<open>plugin.QueryResult\<close>, with the fields the two plugins set; scores are \<open>int64\<close>.  A
  composite literal leaves the fields it does not mention at their zero values.
\<close>

record QueryResult =
  Id :: string
  Title :: string
  SubTitle :: string
  Icon :: WoxImage
  Preview :: WoxPreview
  Score :: "64 word"
  Group :: string
  GroupScore :: "64 word"
  ContextData :: string
  Actions :: "QueryResultAction list"

definition WoxImage_zero :: WoxImage where
  "WoxImage_zero = \<lparr>ImageType = [], ImageData = []\<rparr>"

definition QueryResult_zero :: QueryResult where
  "QueryResult_zero =
     \<lparr>Id = [], Title = [], SubTitle = [], Icon = WoxImage_zero,
      Preview = \<lparr>PreviewType = [], PreviewData = [], ScrollPosition = []\<rparr>,
      Score = 0, Group = [], GroupScore = 0, ContextData = [], Actions = []\<rparr>"

definition replaceVariables :: "unicode_maps \<Rightarrow> string \<Rightarrow> string \<Rightarrow> string" where
  "replaceVariables u text query =
     (let result = ReplaceAll text ''{query}'' query;
          result = ReplaceAll result ''{lower_query}'' (ToLower u query);
          result = ReplaceAll result ''{upper_query}'' (ToUpper u query)
      in result)"

text \<open>
  The body of the \<open>Search\<close> action: every URL of the search is opened with the variables
  replaced.  The value is the list of the arguments of \<open>util.ShellOpen\<close>, in call order.
\<close>

definition run_ShellOpenUrls :: "unicode_maps \<Rightarrow> string list \<Rightarrow> string \<Rightarrow> string list" where
  "run_ShellOpenUrls u urls query = map (\<lambda>url. replaceVariables u url query) urls"

text \<open>The loop of \<open>Query\<close> over the configured searches, \<open>results\<close> being the slice built so far.\<close>

fun WebSearchPlugin_Query_loop ::
  "unicode_maps \<Rightarrow> string \<Rightarrow> string \<Rightarrow> webSearch list \<Rightarrow> QueryResult list \<Rightarrow> QueryResult list" where
  "WebSearchPlugin_Query_loop u triggerKeyword otherQuery [] results = results"
| "WebSearchPlugin_Query_loop u triggerKeyword otherQuery (search # rest) results =
     (if IsFallback search \<or> \<not> Enabled search
      then WebSearchPlugin_Query_loop u triggerKeyword otherQuery rest results
      else if ToLower u (Keyword search) = ToLower u triggerKeyword
      then WebSearchPlugin_Query_loop u triggerKeyword otherQuery rest
             (results @
              [QueryResult_zero
                 \<lparr>Title := replaceVariables u (ws_Title search) otherQuery,
                  Score := 100,
                  Icon := ws_Icon search,
                  Actions :=
                    [\<lparr>Name = ''Search'', act_Icon = WoxImage_zero,
                      PreventHideAfterAction = False,
                      Action = ShellOpenUrls (Urls search) otherQuery\<rparr>]\<rparr>])
      else WebSearchPlugin_Query_loop u triggerKeyword otherQuery rest results)"

definition WebSearchPlugin_Query ::
  "unicode_maps \<Rightarrow> WebSearchPlugin \<Rightarrow> Query \<Rightarrow> QueryResult list" where
  "WebSearchPlugin_Query u r query =
     (let queries = Split (RawQuery query) CHR '' ''
      in if length queries \<le> 1 then []
         else let triggerKeyword = queries ! 0;
                  otherQuery = Join (drop 1 queries) '' ''
              in WebSearchPlugin_Query_loop u triggerKeyword otherQuery (webSearches r) [])"

fun WebSearchPlugin_QueryFallback_loop ::
  "unicode_maps \<Rightarrow> string \<Rightarrow> webSearch list \<Rightarrow> QueryResult list \<Rightarrow> QueryResult list" where
  "WebSearchPlugin_QueryFallback_loop u raw [] results = results"
| "WebSearchPlugin_QueryFallback_loop u raw (search # rest) results =
     (if \<not> Enabled search then WebSearchPlugin_QueryFallback_loop u raw rest results
      else if \<not> IsFallback search then WebSearchPlugin_QueryFallback_loop u raw rest results
      else WebSearchPlugin_QueryFallback_loop u raw rest
             (results @
              [QueryResult_zero
                 \<lparr>Title := replaceVariables u (ws_Title search) raw,
                  Score := 100,
                  Icon := ws_Icon search,
                  Actions :=
                    [\<lparr>Name = ''Search'', act_Icon = WoxImage_zero,
                      PreventHideAfterAction = False,
                      Action = ShellOpenUrls (Urls search) raw\<rparr>]\<rparr>]))"

definition WebSearchPlugin_QueryFallback ::
  "unicode_maps \<Rightarrow> WebSearchPlugin \<Rightarrow> Query \<Rightarrow> QueryResult list" where
  "WebSearchPlugin_QueryFallback u r query =
     WebSearchPlugin_QueryFallback_loop u (RawQuery query) (webSearches r) []"

text \<open>
  The reading of a title that replaces, in one pass from left to right, every occurrence in
  the title of one of the three placeholders by the query text (as it is, in lower case, in
  upper case).  This is the replacement as the specification words it, to be compared with
  \<open>replaceVariables\<close>, which makes three passes.
\<close>

function replaceVariables_one_pass :: "unicode_maps \<Rightarrow> string \<Rightarrow> string \<Rightarrow> string" where
  "replaceVariables_one_pass u [] query = []"
| "replaceVariables_one_pass u (c # cs) query =
     (if prefix ''{query}'' (c # cs)
      then query @ replaceVariables_one_pass u (drop (length ''{query}'') (c # cs)) query
      else if prefix ''{lower_query}'' (c # cs)
      then ToLower u query @
           replaceVariables_one_pass u (drop (length ''{lower_query}'') (c # cs)) query
      else if prefix ''{upper_query}'' (c # cs)
      then ToUpper u query @
           replaceVariables_one_pass u (drop (length ''{upper_query}'') (c # cs)) query
      else c # replaceVariables_one_pass u cs query)"
  by pat_completeness auto
termination
  by (relation "measure (\<lambda>(u, s, query). length s)") auto

subsection \<open>Indexing the icon of a search\<close>

text \<open>
  What a function does besides returning: the calls it makes to the host and to the
  network, in order.
\<close>

datatype event =
    GetWebsiteIcon string
  | LogError string

datatype panic =
    IndexOutOfRange
  | SliceBoundsOutOfRange

text \<open>
  \<open>getWebsiteIconWithCache\<close> is not part of the sources at hand: it is a parameter, giving
  for a URL the image or the error message.  \<open>slices.Sort\<close> on strings sorts by the
  bytewise lexicographic order, which is the order of \<^typ>\<open>string\<close> here; the sorted list
  is unique, so \<^const>\<open>sort\<close> stands for any sorting algorithm.  \<open>search.Urls[0]\<close> panics
  on an empty list.
\<close>

definition indexWebSearchIcon ::
  "(string \<Rightarrow> string + WoxImage) \<Rightarrow> webSearch \<Rightarrow> panic + WoxImage \<times> event list" where
  "indexWebSearchIcon getWebsiteIconWithCache search =
     (case sort (Urls search) of
        [] \<Rightarrow> Inl IndexOutOfRange
      | url0 # _ \<Rightarrow>
          (case getWebsiteIconWithCache url0 of
             Inl err \<Rightarrow>
               Inr (webSearchIcon,
                    [GetWebsiteIcon url0,
                     LogError (''failed to get icon for '' @ url0 @ '': '' @ err)])
           | Inr img \<Rightarrow> Inr (img, [GetWebsiteIcon url0])))"

section \<open>The AI chat plugin\<close>

record Model =
  model_Name :: string
  model_Provider :: string

record Conversation =
  conv_Id :: string
  conv_Role :: string
  conv_Text :: string
  conv_Timestamp :: "64 word"

text \<open>
  \<open>common.AIChatData\<close> with the fields \<open>chat.go\<close> uses; the timestamps are \<open>int64\<close>
  milliseconds, as \<open>util.GetSystemTimestamp\<close> returns them.
\<close>

record AIChatData =
  chat_Id :: string
  chat_Title :: string
  Conversations :: "Conversation list"
  chat_Model :: Model
  CreatedAt :: "64 word"
  UpdatedAt :: "64 word"

record Selection =
  sel_Type :: string
  sel_Text :: string
  sel_FilePaths :: "string list"

record PlainQuery =
  QueryType :: string
  QueryText :: string
  QuerySelection :: Selection

definition Selection_zero :: Selection where
  "Selection_zero = \<lparr>sel_Type = [], sel_Text = [], sel_FilePaths = []\<rparr>"

definition PlainQuery_zero :: PlainQuery where
  "PlainQuery_zero = \<lparr>QueryType = [], QueryText = [], QuerySelection = Selection_zero\<rparr>"

definition Model_zero :: Model where
  "Model_zero = \<lparr>model_Name = [], model_Provider = []\<rparr>"

text \<open>
  What the plugin takes from outside \<open>chat.go\<close>: the JSON encoding and decoding of its
  data (an error message on the left), the identifiers \<open>uuid.NewString\<close> returns (the
  \<open>n\<close>-th call gives \<open>uuid_NewString n\<close>), the system time in milliseconds (one instant
  for the whole of an operation), and constants of the packages \<open>plugin\<close> and \<open>common\<close>.
\<close>

record chat_env =
  json_Marshal_chat :: "AIChatData \<Rightarrow> string + string"
  json_Marshal_chats :: "AIChatData list \<Rightarrow> string + string"
  json_Unmarshal_chats :: "string \<Rightarrow> string + AIChatData list"
  json_Unmarshal_model :: "string \<Rightarrow> string + Model"
  uuid_NewString :: "nat \<Rightarrow> string"
  GetSystemTimestamp :: "64 word"
  aiChatIcon :: WoxImage
  TrashIcon :: WoxImage
  WoxPreviewTypeChat :: string
  WoxPreviewScrollPositionBottom :: string
  QueryTypeInput :: string
  ConversationRoleAI :: string

text \<open>
  The plugin's fields \<open>chats\<close> and \<open>resultChatIdMap\<close>, and behind its \<open>api\<close> the setting
  store (\<open>GetSetting\<close> gives the empty string for a key never saved), the calls of
  \<open>SaveSetting\<close>, \<open>Log\<close> and \<open>ChangeQuery\<close> made so far, and the number of identifiers
  drawn.
\<close>

record AIChatPlugin =
  chats :: "AIChatData list"
  resultChatIdMap :: "string \<rightharpoonup> string"
  settings :: "string \<Rightarrow> string"
  SaveSetting_calls :: "(string \<times> string \<times> bool) list"
  Log_calls :: "string list"
  ChangeQuery_calls :: "PlainQuery list"
  uuid_count :: nat

definition aiChatsSettingKey :: string where
  "aiChatsSettingKey = ''ai_chats''"

datatype MetadataFeatureName =
    MetadataFeatureIgnoreAutoScore
  | MetadataFeatureAI
  | MetadataFeatureResultPreviewWidthRatio

record MetadataFeature =
  feat_Name :: MetadataFeatureName
  feat_Params :: "(string \<times> string) list"

text \<open>The \<open>Features\<close> of \<open>GetMetadata\<close>.\<close>

definition AIChatPlugin_Features :: "MetadataFeature list" where
  "AIChatPlugin_Features =
     [\<lparr>feat_Name = MetadataFeatureIgnoreAutoScore, feat_Params = []\<rparr>,
      \<lparr>feat_Name = MetadataFeatureAI, feat_Params = []\<rparr>,
      \<lparr>feat_Name = MetadataFeatureResultPreviewWidthRatio,
       feat_Params = [(''WidthRatio'', ''0.3'')]\<rparr>]"

text \<open>
  \<open>sort.Slice(xs, less)\<close>.  Go does not fix the algorithm, nor the order of elements that
  \<open>less\<close> does not separate; an insertion sort stands for it, and the theorems use only what
  every sorting algorithm gives (a permutation, ordered by \<open>less\<close>).
\<close>

fun insert_Slice :: "('a \<Rightarrow> 'a \<Rightarrow> bool) \<Rightarrow> 'a \<Rightarrow> 'a list \<Rightarrow> 'a list" where
  "insert_Slice lt x [] = [x]"
| "insert_Slice lt x (y # ys) =
     (if lt x y then x # y # ys else y # insert_Slice lt x ys)"

definition sort_Slice :: "('a \<Rightarrow> 'a \<Rightarrow> bool) \<Rightarrow> 'a list \<Rightarrow> 'a list" where
  "sort_Slice lt xs = foldr (insert_Slice lt) xs []"

definition loadChats :: "chat_env \<Rightarrow> AIChatPlugin \<Rightarrow> string + AIChatData list" where
  "loadChats env r =
     (let chatsJson = settings r aiChatsSettingKey
      in if chatsJson = [] then Inr []
         else (case json_Unmarshal_chats env chatsJson of
                 Inl err \<Rightarrow> Inl err
               | Inr loaded \<Rightarrow>
                   Inr (sort_Slice (\<lambda>a b. UpdatedAt b <s UpdatedAt a) loaded)))"

text \<open>The part of \<open>Init\<close> that sets \<open>chats\<close>.\<close>

definition Init_chats :: "chat_env \<Rightarrow> AIChatPlugin \<Rightarrow> AIChatPlugin" where
  "Init_chats env r =
     (case loadChats env r of
        Inl err \<Rightarrow> r\<lparr>chats := [], Log_calls := Log_calls r @ [''Failed to load chats: '' @ err]\<rparr>
      | Inr cs \<Rightarrow> r\<lparr>chats := cs\<rparr>)"

definition saveChats :: "chat_env \<Rightarrow> AIChatPlugin \<Rightarrow> AIChatPlugin" where
  "saveChats env r =
     (case json_Marshal_chats env (chats r) of
        Inl err \<Rightarrow> r\<lparr>Log_calls := Log_calls r @ [''Failed to marshal chats: '' @ err]\<rparr>
      | Inr chatsJson \<Rightarrow>
          r\<lparr>settings := (settings r)(aiChatsSettingKey := chatsJson),
            SaveSetting_calls := SaveSetting_calls r @ [(aiChatsSettingKey, chatsJson, False)]\<rparr>)"

text \<open>
  \<open>getResultGroup\<close>.  The subtraction is that of \<open>int64\<close> (it wraps around), the comparison
  is signed.
\<close>

definition getResultGroup :: "chat_env \<Rightarrow> AIChatData \<Rightarrow> string \<times> 64 word" where
  "getResultGroup env chat =
     (if GetSystemTimestamp env - UpdatedAt chat <s 1000 * 60 * 60 * 24 then (''Today'', 90)
      else if GetSystemTimestamp env - UpdatedAt chat <s 1000 * 60 * 60 * 24 * 2
      then (''Yesterday'', 80)
      else (''History'', 10))"

definition getDefaultModel :: "chat_env \<Rightarrow> AIChatPlugin \<Rightarrow> Model \<times> AIChatPlugin" where
  "getDefaultModel env r =
     (let model = settings r ''default_model'';
          decoded = (if model \<noteq> [] then json_Unmarshal_model env model else Inl []);
          r' = (case decoded of
                  Inl err \<Rightarrow>
                    if model \<noteq> []
                    then r\<lparr>Log_calls := Log_calls r @ [''Failed to unmarshal default model: '' @ err]\<rparr>
                    else r
                | Inr m \<Rightarrow> r)
      in case decoded of
           Inr m \<Rightarrow> (m, r')
         | Inl err \<Rightarrow>
             (case chats r of
                lastChat # _ \<Rightarrow>
                  (\<lparr>model_Name = model_Name (chat_Model lastChat),
                    model_Provider = model_Provider (chat_Model lastChat)\<rparr>, r')
              | [] \<Rightarrow> (Model_zero, r')))"

definition getNewChatPreviewData :: "chat_env \<Rightarrow> AIChatPlugin \<Rightarrow> QueryResult \<times> AIChatPlugin" where
  "getNewChatPreviewData env r =
     (let chatId = uuid_NewString env (uuid_count r);
          r1 = r\<lparr>uuid_count := uuid_count r + 1\<rparr>;
          (model, r2) = getDefaultModel env r1;
          chatData = \<lparr>chat_Id = chatId, chat_Title = [], Conversations = [],
                      chat_Model = model,
                      CreatedAt = GetSystemTimestamp env, UpdatedAt = GetSystemTimestamp env\<rparr>
      in case json_Marshal_chat env chatData of
           Inl err \<Rightarrow>
             (QueryResult_zero,
              r2\<lparr>Log_calls := Log_calls r2 @ [''Failed to marshal chat preview data: '' @ err]\<rparr>)
         | Inr previewData \<Rightarrow>
             (let resultId = uuid_NewString env (uuid_count r2);
                  r3 = r2\<lparr>uuid_count := uuid_count r2 + 1,
                          resultChatIdMap := (resultChatIdMap r2)(chatId \<mapsto> resultId)\<rparr>
              in (QueryResult_zero
                    \<lparr>Id := resultId,
                     Title := ''New Chat'',
                     SubTitle := ''Create a new chat'',
                     Icon := aiChatIcon env,
                     ContextData := chatId,
                     Preview := \<lparr>PreviewType = WoxPreviewTypeChat env,
                                  PreviewData = previewData,
                                  ScrollPosition = WoxPreviewScrollPositionBottom env\<rparr>,
                     Actions := [\<lparr>Name = ''Start Chat'', act_Icon = WoxImage_zero,
                                  PreventHideAfterAction = True, Action = FocusToChatInput\<rparr>],
                     Group := ''New Chat'',
                     GroupScore := 1000\<rparr>, r3)))"

text \<open>The icon of the \<open>Summarize Chat\<close> action, \<open>common.NewWoxImageSvg(...)\<close>.\<close>

definition summarizeChatIcon :: WoxImage where
  \<open>summarizeChatIcon =
     \<lparr>ImageType = ''svg'',
      ImageData = ''<svg xmlns="http://www.w3.org/2000/svg" width="24" height="24" viewBox="0 0 24 24"><path fill="currentColor" d="M5 5.5C5 6.33 5.67 7 6.5 7h4v10.5c0 .83.67 1.5 1.5 1.5s1.5-.67 1.5-1.5V7h4c.83 0 1.5-.67 1.5-1.5S18.33 4 17.5 4h-11C5.67 4 5 4.67 5 5.5"/></svg>''\<rparr>\<close>

text \<open>
  The loop of \<open>Query\<close> over \<open>r.chats\<close>; \<open>i\<close> is the index of \<open>chat\<close> in that slice.  A chat
  that cannot be marshalled is logged and skipped.
\<close>

fun AIChatPlugin_Query_loop ::
  "chat_env \<Rightarrow> Query \<Rightarrow> nat \<Rightarrow> AIChatData list \<Rightarrow> QueryResult list \<times> AIChatPlugin \<Rightarrow>
   QueryResult list \<times> AIChatPlugin" where
  "AIChatPlugin_Query_loop env query i [] (results, r) = (results, r)"
| "AIChatPlugin_Query_loop env query i (chat # rest) (results, r) =
     (case json_Marshal_chat env chat of
        Inl err \<Rightarrow>
          AIChatPlugin_Query_loop env query (i + 1) rest
            (results,
             r\<lparr>Log_calls := Log_calls r @ [''Failed to marshal chat preview data: '' @ err]\<rparr>)
      | Inr previewData \<Rightarrow>
          (let resultId = uuid_NewString env (uuid_count r);
               r1 = r\<lparr>uuid_count := uuid_count r + 1,
                       resultChatIdMap := (resultChatIdMap r)(chat_Id chat \<mapsto> resultId)\<rparr>;
               continueChatText =
                 (if length (Conversations chat) = 0 then ''Start Chat'' else ''Continue Chat'');
               (group, groupScore) = getResultGroup env chat
           in AIChatPlugin_Query_loop env query (i + 1) rest
                (results @
                 [QueryResult_zero
                    \<lparr>Id := resultId,
                     Title := chat_Title chat,
                     Icon := aiChatIcon env,
                     ContextData := chat_Id chat,
                     Preview := \<lparr>PreviewType = WoxPreviewTypeChat env,
                                  PreviewData = previewData,
                                  ScrollPosition = WoxPreviewScrollPositionBottom env\<rparr>,
                     Actions :=
                       [\<lparr>Name = continueChatText, act_Icon = WoxImage_zero,
                         PreventHideAfterAction = True, Action = FocusToChatInput\<rparr>,
                        \<lparr>Name = ''Delete Chat'', act_Icon = TrashIcon env,
                         PreventHideAfterAction = True,
                         Action = DeleteChat i (RawQuery query)\<rparr>,
                        \<lparr>Name = ''Summarize Chat'',
                         act_Icon = summarizeChatIcon,
                         PreventHideAfterAction = True, Action = SummarizeChat\<rparr>],
                     Group := group,
                     GroupScore := groupScore\<rparr>], r1)))"

definition AIChatPlugin_Query ::
  "chat_env \<Rightarrow> AIChatPlugin \<Rightarrow> Query \<Rightarrow> QueryResult list \<times> AIChatPlugin" where
  "AIChatPlugin_Query env r query =
     (let r0 = r\<lparr>resultChatIdMap := Map.empty\<rparr>;
          (newChat, r1) = getNewChatPreviewData env r0
      in AIChatPlugin_Query_loop env query 0 (chats r1) ([newChat], r1))"



text \<open>
  The loop of \<open>Chat\<close> that looks for the chat with the id of \<open>aiChatData\<close>: the first chat
  with that id is replaced in place and the loop ends.  The second component is \<open>found\<close>.
\<close>

fun Chat_find_loop :: "AIChatData \<Rightarrow> AIChatData list \<Rightarrow> AIChatData list \<times> bool" where
  "Chat_find_loop aiChatData [] = ([], False)"
| "Chat_find_loop aiChatData (chat # rest) =
     (if chat_Id chat = chat_Id aiChatData then (aiChatData # rest, True)
      else (let (rest', found) = Chat_find_loop aiChatData rest in (chat # rest', found)))"

text \<open>
  \<open>Chat\<close>, up to the call of \<open>saveChats\<close>: a conversation for the answer is appended to the
  chat data; the chat with the same id is replaced in place, or, when there is none, the
  chat data is appended and the list sorted again; the chats are saved.  What follows in
  the source (summarising, the AI stream) leaves the order of the list and the timestamps
  as they are and is not modelled.
\<close>

definition Chat :: "chat_env \<Rightarrow> AIChatData \<Rightarrow> AIChatPlugin \<Rightarrow> AIChatPlugin" where
  "Chat env aiChatData0 r =
     (let currentResponseConversationId = uuid_NewString env (uuid_count r);
          r1 = r\<lparr>uuid_count := uuid_count r + 1\<rparr>;
          aiChatData = aiChatData0
            \<lparr>Conversations := Conversations aiChatData0 @
               [\<lparr>conv_Id = currentResponseConversationId,
                 conv_Role = ConversationRoleAI env,
                 conv_Text = [],
                 conv_Timestamp = GetSystemTimestamp env\<rparr>]\<rparr>;
          (replaced, found) = Chat_find_loop aiChatData (chats r1);
          r2 = (if found then r1\<lparr>chats := replaced\<rparr>
                else r1\<lparr>chats := sort_Slice (\<lambda>a b. UpdatedAt b <s UpdatedAt a)
                                   (chats r1 @ [aiChatData])\<rparr>)
      in saveChats env r2)"

section \<open>The HTTP handlers of the plugin settings\<close>

datatype PluginSettingDefinitionType =
    PluginSettingDefinitionTypeSelectAIModel
  | PluginSettingDefinitionTypeTable
  | PluginSettingDefinitionTypeOther string

text \<open>
  A setting definition of the metadata.  \<open>Value\<close> is an interface value: \<open>None\<close> for
  \<open>nil\<close>, and \<open>Some k\<close> for a value whose \<open>GetKey()\<close> is \<open>k\<close>.
\<close>

record PluginSettingDefinitionItem =
  def_Type :: PluginSettingDefinitionType
  def_Value :: "string option"
  IsPlatformSpecific :: bool

record Metadata =
  md_Id :: string
  md_Name :: string
  md_Icon :: string
  md_TriggerKeywords :: "string list"
  SettingDefinitions :: "PluginSettingDefinitionItem list"
  Features :: "MetadataFeature list"

text \<open>
  \<open>GetMetadata\<close> of the chat plugin, with the fields that are read here (the author, the
  version and the other descriptive fields are left out); \<open>icon\<close> is
  \<open>aiChatIcon.String()\<close>.
\<close>

definition AIChatPlugin_GetMetadata :: "string \<Rightarrow> Metadata" where
  "AIChatPlugin_GetMetadata icon =
     \<lparr>md_Id = ''a9cfd85a-6e53-415c-9d44-68777aa6323d'',
      md_Name = ''AI Chat'',
      md_Icon = icon,
      md_TriggerKeywords = [''chat''],
      SettingDefinitions =
        [\<lparr>def_Type = PluginSettingDefinitionTypeSelectAIModel,
          def_Value = Some ''default_model'', IsPlatformSpecific = False\<rparr>,
         \<lparr>def_Type = PluginSettingDefinitionTypeTable,
          def_Value = Some ''mcp_servers'', IsPlatformSpecific = False\<rparr>],
      Features = AIChatPlugin_Features\<rparr>"

record PluginSetting =
  Disabled :: bool
  TriggerKeywords :: "string list"

record Instance =
  inst_Metadata :: Metadata
  Setting :: PluginSetting
  PluginDirectory :: string

text \<open>
  The plugin manager.  \<open>GetPluginInstances()\<close> is a slice of pointers: \<open>instances\<close> lists
  addresses, and \<open>heap\<close> gives the instance at an address.  The two logs record the calls of
  \<open>Instance.SaveSetting\<close> (the instance, the setting it is to write, and the error it
  returns: \<open>None\<close> when the setting has been saved) and of \<open>API.SaveSetting\<close> (the
  instance, key, value and platform flag).
\<close>

record PluginManager =
  instances :: "nat list"
  heap :: "nat \<Rightarrow> Instance"
  Instance_SaveSetting_calls :: "(nat \<times> PluginSetting \<times> string option) list"
  API_SaveSetting_calls :: "(nat \<times> string \<times> string \<times> bool) list"

datatype response_data =
    DataString string
  | DataImage WoxImage

datatype response =
    SuccessResponse response_data
  | ErrorResponse string

text \<open>
  JSON values, and the text handed to \<open>json.Unmarshal\<close> as a JSON parser sees it:
  malformed (with the message of the syntax error) or the value it denotes.
\<close>

datatype json =
    JNull
  | JBool bool
  | JNumber string
  | JString string
  | JArray "json list"
  | JObject "(string \<times> json) list"

datatype json_text =
    Malformed string
  | WellFormed json

text \<open>
  What the handlers take from outside \<open>router.go\<close>: the error of \<open>Instance.SaveSetting\<close>
  (\<open>None\<close> for \<open>nil\<close>), \<open>NewQuery\<close> of the plugin manager (an error, or the address of the
  plugin instance the query is for, \<open>None\<close> for a \<open>nil\<close> instance), \<open>common.ParseWoxImage\<close>,
  \<open>common.ConvertIcon\<close>, and how \<open>encoding/json\<close> fills a \<open>common.PlainQuery\<close> from the
  members of a JSON object (which depends on the declaration of that struct).
\<close>

record router_env =
  Instance_SaveSetting :: "Instance \<Rightarrow> string option"
  NewQuery :: "PluginManager \<Rightarrow> PlainQuery \<Rightarrow> string + nat option"
  ParseWoxImage :: "string \<Rightarrow> string + WoxImage"
  ConvertIcon :: "WoxImage \<Rightarrow> string \<Rightarrow> WoxImage"
  decode_PlainQuery_object :: "(string \<times> json) list \<Rightarrow> string + PlainQuery"

text \<open>
  \<open>json.Unmarshal(text, &plainQuery)\<close> for the struct \<open>plainQuery\<close>, which starts at its zero
  value: a syntax error for malformed text; \<open>null\<close> leaves the struct as it is; an object is
  decoded member by member; any other JSON value is an \<open>UnmarshalTypeError\<close>.
\<close>

fun json_Unmarshal_PlainQuery :: "router_env \<Rightarrow> json_text \<Rightarrow> string + PlainQuery" where
  "json_Unmarshal_PlainQuery env (Malformed err) = Inl err"
| "json_Unmarshal_PlainQuery env (WellFormed JNull) = Inr PlainQuery_zero"
| "json_Unmarshal_PlainQuery env (WellFormed (JObject members)) =
     decode_PlainQuery_object env members"
| "json_Unmarshal_PlainQuery env (WellFormed (JBool b)) =
     Inl ''json: cannot unmarshal bool into Go value of type common.PlainQuery''"
| "json_Unmarshal_PlainQuery env (WellFormed (JNumber n)) =
     Inl ''json: cannot unmarshal number into Go value of type common.PlainQuery''"
| "json_Unmarshal_PlainQuery env (WellFormed (JString str)) =
     Inl ''json: cannot unmarshal string into Go value of type common.PlainQuery''"
| "json_Unmarshal_PlainQuery env (WellFormed (JArray elems)) =
     Inl ''json: cannot unmarshal array into Go value of type common.PlainQuery''"

text \<open>
  \<open>lo.Find(plugins, func(item) bool { return item.Metadata.Id == pluginId })\<close>: the first
  instance of the list with that id.
\<close>

definition find_instance :: "PluginManager \<Rightarrow> string \<Rightarrow> nat option" where
  "find_instance m pluginId =
     List.find (\<lambda>item. md_Id (inst_Metadata (heap m item)) = pluginId) (instances m)"

text \<open>\<open>findPlugin.Setting.Disabled = b\<close> through the pointer \<open>p\<close>.\<close>

definition set_Disabled :: "nat \<Rightarrow> bool \<Rightarrow> PluginManager \<Rightarrow> PluginManager" where
  "set_Disabled p b m =
     m\<lparr>heap := (heap m)(p := (heap m p)\<lparr>Setting := (Setting (heap m p))\<lparr>Disabled := b\<rparr>\<rparr>)\<rparr>"


text \<open>
  \<open>findPlugin.SaveSetting(ctx)\<close>: the call is recorded with its outcome, its error is
  returned.
\<close>

definition SaveSetting :: "router_env \<Rightarrow> nat \<Rightarrow> PluginManager \<Rightarrow> string option \<times> PluginManager" where
  "SaveSetting env p m =
     (Instance_SaveSetting env (heap m p),
      m\<lparr>Instance_SaveSetting_calls :=
          Instance_SaveSetting_calls m @
          [(p, Setting (heap m p), Instance_SaveSetting env (heap m p))]\<rparr>)"

text \<open>
  The handlers of \<open>/plugin/disable\<close> and \<open>/plugin/enable\<close>.  \<open>idResult\<close> is the result of
  \<open>gjson.GetBytes(body, "id")\<close>: \<open>None\<close> when the field does not exist, else its string.
\<close>

definition handlePluginDisable ::
  "router_env \<Rightarrow> string option \<Rightarrow> PluginManager \<Rightarrow> response \<times> PluginManager" where
  "handlePluginDisable env idResult m =
     (case idResult of
        None \<Rightarrow> (ErrorResponse ''id is empty'', m)
      | Some pluginId \<Rightarrow>
          (case find_instance m pluginId of
             None \<Rightarrow> (ErrorResponse ''can't find plugin'', m)
           | Some findPlugin \<Rightarrow>
               (let (err, m') = SaveSetting env findPlugin (set_Disabled findPlugin True m)
                in case err of
                     Some e \<Rightarrow> (ErrorResponse (''can't disable plugin: '' @ e), m')
                   | None \<Rightarrow> (SuccessResponse (DataString []), m'))))"

definition handlePluginEnable ::
  "router_env \<Rightarrow> string option \<Rightarrow> PluginManager \<Rightarrow> response \<times> PluginManager" where
  "handlePluginEnable env idResult m =
     (case idResult of
        None \<Rightarrow> (ErrorResponse ''id is empty'', m)
      | Some pluginId \<Rightarrow>
          (case find_instance m pluginId of
             None \<Rightarrow> (ErrorResponse ''can't find plugin'', m)
           | Some findPlugin \<Rightarrow>
               (let (err, m') = SaveSetting env findPlugin (set_Disabled findPlugin False m)
                in case err of
                     Some e \<Rightarrow> (ErrorResponse (''can't enable plugin: '' @ e), m')
                   | None \<Rightarrow> (SuccessResponse (DataString []), m'))))"




text \<open>
  The handler of \<open>/query/icon\<close>.  \<open>queryResult\<close> is the result of
  \<open>gjson.GetBytes(body, "query")\<close>: \<open>None\<close> when the field does not exist, else the text of
  \<open>queryResult.String()\<close>.  The second component lists the messages of \<open>logger.Error\<close>.
\<close>

definition handleQueryIcon ::
  "router_env \<Rightarrow> json_text option \<Rightarrow> PluginManager \<Rightarrow> response \<times> string list" where
  "handleQueryIcon env queryResult m =
     (case queryResult of
        None \<Rightarrow> (ErrorResponse ''query is empty'', [])
      | Some txt \<Rightarrow>
          (case json_Unmarshal_PlainQuery env txt of
             Inl unmarshalErr \<Rightarrow> (ErrorResponse unmarshalErr, [unmarshalErr])
           | Inr plainQuery \<Rightarrow>
               (case NewQuery env m plainQuery of
                  Inl err \<Rightarrow>
                    (SuccessResponse (DataImage WoxImage_zero), [''failed to new query: '' @ err])
                | Inr None \<Rightarrow> (SuccessResponse (DataImage WoxImage_zero), [])
                | Inr (Some pluginInstance) \<Rightarrow>
                    (case ParseWoxImage env (md_Icon (inst_Metadata (heap m pluginInstance))) of
                       Inl parseErr \<Rightarrow>
                         (SuccessResponse (DataImage WoxImage_zero),
                          [''failed to parse icon: '' @ parseErr])
                     | Inr iconImg \<Rightarrow>
                         (SuccessResponse
                            (DataImage
                               (ConvertIcon env iconImg (PluginDirectory (heap m pluginInstance)))),
                          [])))))"

section \<open>Example inputs\<close>

subsection \<open>Web searches\<close>

text \<open>
  The examples are ASCII texts, for which the case maps do not consult the Unicode tables;
  the identity stands for the tables.
\<close>

definition ex_unicode :: unicode_maps where
  "ex_unicode = \<lparr>Map_unicode_ToLower = (\<lambda>s. s), Map_unicode_ToUpper = (\<lambda>s. s)\<rparr>"

text \<open>
  A configuration with a search for the keyword \<open>g\<close>, a fallback search, and a disabled
  search for \<open>g\<close>.
\<close>

definition ex_plugin :: WebSearchPlugin where
  "ex_plugin = \<lparr>webSearches =
     [\<lparr>Urls = [''https://www.google.com/search?q={query}''], ws_Title = ''Search Google for {query}'',
       Keyword = ''g'', IsFallback = False, ws_Icon = WoxImage_zero, Enabled = True\<rparr>,
      \<lparr>Urls = [''https://duckduckgo.com/?q={query}''], ws_Title = ''Search DuckDuckGo for {query}'',
       Keyword = ''ddg'', IsFallback = True, ws_Icon = WoxImage_zero, Enabled = True\<rparr>,
      \<lparr>Urls = [''https://www.bing.com/search?q={query}''], ws_Title = ''Search Bing for {query}'',
       Keyword = ''g'', IsFallback = False, ws_Icon = WoxImage_zero, Enabled = False\<rparr>]\<rparr>"

text \<open>Two searches that differ in the order of their URLs, and a fetch that always fails.\<close>

definition ex_search_a :: webSearch where
  "ex_search_a = \<lparr>Urls = [''https://b.example/?q={query}'', ''https://a.example/?q={query}''],
     ws_Title = ''Search for {query}'', Keyword = ''s'', IsFallback = False,
     ws_Icon = WoxImage_zero, Enabled = True\<rparr>"

definition ex_search_b :: webSearch where
  "ex_search_b = \<lparr>Urls = [''https://a.example/?q={query}'', ''https://b.example/?q={query}''],
     ws_Title = ''Search for {query}'', Keyword = ''s'', IsFallback = False,
     ws_Icon = WoxImage_zero, Enabled = True\<rparr>"

definition ex_fetch_fails :: "string \<Rightarrow> string + WoxImage" where
  "ex_fetch_fails url = Inl ''timeout''"

subsection \<open>Chats\<close>

text \<open>
  The age of a chat at the instant of \<open>env\<close>, the time minus \<open>UpdatedAt\<close>, is itself an
  \<open>int64\<close>: the subtraction of \<open>getResultGroup\<close> does not wrap around.
\<close>

definition age_in_int64 :: "chat_env \<Rightarrow> AIChatData \<Rightarrow> bool" where
  "age_in_int64 env chat \<longleftrightarrow>
     - (2 ^ 63) \<le> sint (GetSystemTimestamp env) - sint (UpdatedAt chat) \<and>
     sint (GetSystemTimestamp env) - sint (UpdatedAt chat) < 2 ^ 63"

text \<open>
  An environment for the examples: the time is 1700000000000, the encoders are stand-ins
  that succeed, the decoders fail.
\<close>

definition ex_chat_env :: chat_env where
  "ex_chat_env =
     \<lparr>json_Marshal_chat = (\<lambda>chat. Inr (chat_Id chat)),
      json_Marshal_chats = (\<lambda>cs. Inr (concat (map chat_Id cs))),
      json_Unmarshal_chats = (\<lambda>txt. Inl ''unexpected end of JSON input''),
      json_Unmarshal_model = (\<lambda>txt. Inl ''unexpected end of JSON input''),
      uuid_NewString = (\<lambda>n. replicate (Suc n) CHR ''u''),
      GetSystemTimestamp = 1700000000000,
      aiChatIcon = WoxImage_zero,
      TrashIcon = WoxImage_zero,
      WoxPreviewTypeChat = ''chat'',
      WoxPreviewScrollPositionBottom = ''bottom'',
      QueryTypeInput = ''input'',
      ConversationRoleAI = ''ai''\<rparr>"

definition ex_chat :: "string \<Rightarrow> 64 word \<Rightarrow> AIChatData" where
  "ex_chat ident updated =
     \<lparr>chat_Id = ident, chat_Title = ident, Conversations = [],
      chat_Model = Model_zero, CreatedAt = updated, UpdatedAt = updated\<rparr>"

definition ex_chat_plugin :: "AIChatData list \<Rightarrow> AIChatPlugin" where
  "ex_chat_plugin cs =
     \<lparr>chats = cs, resultChatIdMap = Map.empty, settings = (\<lambda>key. []),
      SaveSetting_calls = [], Log_calls = [], ChangeQuery_calls = [], uuid_count = 0\<rparr>"

text \<open>
  Chats for the examples: updated one second, thirty hours and ten days before the instant
  of \<open>ex_chat_env\<close>; at the epoch; and at the least \<open>int64\<close>.
\<close>

definition ex_chats_recent :: "AIChatData list" where
  "ex_chats_recent =
     [ex_chat ''c1'' 1699999999000, ex_chat ''c2'' 1699892000000, ex_chat ''c3'' 1699136000000]"

text \<open>
  Two chats updated thirty hours and ten days ago, in the order \<open>loadChats\<close> gives; the
  user then continues the older one, and the chat data passed to \<open>Chat\<close> has its id and
  was updated one second ago.
\<close>

definition ex_chats_before_Chat :: "AIChatData list" where
  "ex_chats_before_Chat = [ex_chat ''c2'' 1699892000000, ex_chat ''c3'' 1699136000000]"

definition ex_chat_continued :: AIChatData where
  "ex_chat_continued = ex_chat ''c3'' 1699999999000"

definition ex_chats_extreme :: "AIChatData list" where
  "ex_chats_extreme = [ex_chat ''epoch'' 0, ex_chat ''old'' (- 9223372036854775808)]"

subsection \<open>Plugin manager\<close>

text \<open>
  A plugin manager for the examples, with the web search plugin at address 0 and the chat
  plugin at address 1, and an environment in which \<open>SaveSetting\<close> succeeds, \<open>NewQuery\<close>
  resolves the query \<open>chat \<close> to the chat plugin, and icons of the form \<open>emoji:...\<close> are
  parsed.
\<close>

definition ex_instance :: "string \<Rightarrow> PluginSettingDefinitionItem list \<Rightarrow> Instance" where
  "ex_instance ident defs =
     \<lparr>inst_Metadata =
        \<lparr>md_Id = ident, md_Name = ident, md_Icon = ''emoji:'' @ ident, md_TriggerKeywords = [''*''],
         SettingDefinitions = defs, Features = []\<rparr>,
      Setting = \<lparr>Disabled = False, TriggerKeywords = []\<rparr>,
      PluginDirectory = ''/plugins/'' @ ident\<rparr>"

definition ex_manager :: PluginManager where
  "ex_manager =
     \<lparr>instances = [0, 1],
      heap = (\<lambda>p. if p = 0
                  then ex_instance ''websearch''
                         [\<lparr>def_Type = PluginSettingDefinitionTypeOther ''newline'',
                           def_Value = None, IsPlatformSpecific = False\<rparr>,
                          \<lparr>def_Type = PluginSettingDefinitionTypeTable,
                           def_Value = Some ''webSearches'', IsPlatformSpecific = True\<rparr>,
                          \<lparr>def_Type = PluginSettingDefinitionTypeTable,
                           def_Value = Some ''webSearches'', IsPlatformSpecific = False\<rparr>]
                  else ex_instance ''chat'' (SettingDefinitions (AIChatPlugin_GetMetadata []))),
      Instance_SaveSetting_calls = [],
      API_SaveSetting_calls = []\<rparr>"

definition ex_router_env :: router_env where
  "ex_router_env =
     \<lparr>Instance_SaveSetting = (\<lambda>inst. None),
      NewQuery = (\<lambda>m q. if QueryText q = [] then Inl ''empty query''
                         else if QueryText q = ''chat '' then Inr (Some 1) else Inr None),
      ParseWoxImage = (\<lambda>txt. if take 6 txt = ''emoji:''
                               then Inr \<lparr>ImageType = ''emoji'', ImageData = drop 6 txt\<rparr>
                               else Inl ''unsupported image type''),
      ConvertIcon = (\<lambda>img dir. img),
      decode_PlainQuery_object =
        (\<lambda>members. case map_of members ''QueryText'' of
                      Some (JString txt) \<Rightarrow>
                        Inr \<lparr>QueryType = ''input'', QueryText = txt, QuerySelection = Selection_zero\<rparr>
                    | Some other \<Rightarrow>
                        Inl ''json: cannot unmarshal into Go struct field PlainQuery.QueryText of type string''
                    | None \<Rightarrow> Inr PlainQuery_zero)\<rparr>"

text \<open>The same environment with a \<open>SaveSetting\<close> that fails.\<close>

definition ex_router_env_save_fails :: router_env where
  "ex_router_env_save_fails =
     ex_router_env\<lparr>Instance_SaveSetting := (\<lambda>inst. Some ''disk full'')\<rparr>"

section \<open>Properties of the string functions\<close>

lemma length_Split: "length (Split s sep) = Suc (count_list s sep)"
  by (induction s) (auto split: list.splits)

lemma Split_not_Nil: "Split s sep \<noteq> []"
  using length_Split [of s sep] by auto

lemma Join_Split: "Join (Split s sep) [sep] = s"
proof (induction s)
  case Nil show ?case by simp
next
  case (Cons c cs)
  obtain w ws where sp: "Split cs sep = w # ws" using Split_not_Nil [of cs sep] by (cases "Split cs sep") auto
  show ?case
  proof (cases "c = sep")
    case True
    with Cons sp show ?thesis by simp
  next
    case False
    with Cons sp show ?thesis by (cases ws) auto
  qed
qed

lemma Split_no_sep: "w \<in> set (Split s sep) \<Longrightarrow> sep \<notin> set w"
  by (induction s arbitrary: w) (auto split: list.splits if_splits)


section \<open>Properties of the web search plugin\<close>

lemma Query_loop_map_filter:
  "WebSearchPlugin_Query_loop u triggerKeyword otherQuery ws results =
     results @
     map (\<lambda>search. QueryResult_zero
            \<lparr>Title := replaceVariables u (ws_Title search) otherQuery,
             Score := 100,
             Icon := ws_Icon search,
             Actions :=
               [\<lparr>Name = ''Search'', act_Icon = WoxImage_zero,
                 PreventHideAfterAction = False,
                 Action = ShellOpenUrls (Urls search) otherQuery\<rparr>]\<rparr>)
       (filter (\<lambda>search. \<not> IsFallback search \<and> Enabled search \<and>
                  ToLower u (Keyword search) = ToLower u triggerKeyword) ws)"
  by (induction ws arbitrary: results) simp_all

lemma QueryFallback_loop_map_filter:
  "WebSearchPlugin_QueryFallback_loop u raw ws results =
     results @
     map (\<lambda>search. QueryResult_zero
            \<lparr>Title := replaceVariables u (ws_Title search) raw,
             Score := 100,
             Icon := ws_Icon search,
             Actions :=
               [\<lparr>Name = ''Search'', act_Icon = WoxImage_zero,
                 PreventHideAfterAction = False,
                 Action = ShellOpenUrls (Urls search) raw\<rparr>]\<rparr>)
       (filter (\<lambda>search. Enabled search \<and> IsFallback search) ws)"
  by (induction ws arbitrary: results) simp_all

text \<open>
  Claim C1.  Every result of \<open>Query\<close> is built from an entry of a sublist of the entries
  that are enabled and are not fallbacks, so none comes from a fallback or a disabled entry.
  \<open>QueryFallback\<close> returns one result for each entry that is enabled and a fallback, in the
  order of the configuration.  The two sets of entries are disjoint.  This holds whatever
  the Unicode maps \<open>u\<close> are.
\<close>

theorem WebSearch_fallback_never_mixed:
  "(\<exists>ss. subseq ss (filter (\<lambda>search. Enabled search \<and> \<not> IsFallback search) (webSearches r)) \<and>
      WebSearchPlugin_Query u r query =
        map (\<lambda>search. QueryResult_zero
               \<lparr>Title := replaceVariables u (ws_Title search)
                            (Join (drop 1 (Split (RawQuery query) CHR '' '')) '' ''),
                Score := 100,
                Icon := ws_Icon search,
                Actions :=
                  [\<lparr>Name = ''Search'', act_Icon = WoxImage_zero,
                    PreventHideAfterAction = False,
                    Action = ShellOpenUrls (Urls search)
                               (Join (drop 1 (Split (RawQuery query) CHR '' '')) '' '')\<rparr>]\<rparr>) ss) \<and>
   WebSearchPlugin_QueryFallback u r query =
     map (\<lambda>search. QueryResult_zero
            \<lparr>Title := replaceVariables u (ws_Title search) (RawQuery query),
             Score := 100,
             Icon := ws_Icon search,
             Actions :=
               [\<lparr>Name = ''Search'', act_Icon = WoxImage_zero,
                 PreventHideAfterAction = False,
                 Action = ShellOpenUrls (Urls search) (RawQuery query)\<rparr>]\<rparr>)
       (filter (\<lambda>search. Enabled search \<and> IsFallback search) (webSearches r)) \<and>
   set (filter (\<lambda>search. Enabled search \<and> \<not> IsFallback search) (webSearches r)) \<inter>
   set (filter (\<lambda>search. Enabled search \<and> IsFallback search) (webSearches r)) = {}"
proof (intro conjI)
  let ?nf = "filter (\<lambda>search. Enabled search \<and> \<not> IsFallback search) (webSearches r)"
  let ?tk = "Split (RawQuery query) CHR '' '' ! 0"
  let ?mk = "\<lambda>search. QueryResult_zero
               \<lparr>Title := replaceVariables u (ws_Title search)
                            (Join (drop 1 (Split (RawQuery query) CHR '' '')) '' ''),
                Score := 100,
                Icon := ws_Icon search,
                Actions :=
                  [\<lparr>Name = ''Search'', act_Icon = WoxImage_zero,
                    PreventHideAfterAction = False,
                    Action = ShellOpenUrls (Urls search)
                               (Join (drop 1 (Split (RawQuery query) CHR '' '')) '' '')\<rparr>]\<rparr>"
  show "\<exists>ss. subseq ss ?nf \<and> WebSearchPlugin_Query u r query = map ?mk ss"
  proof (cases "length (Split (RawQuery query) CHR '' '') \<le> 1")
    case True
    then have "WebSearchPlugin_Query u r query = map ?mk []"
      by (simp add: WebSearchPlugin_Query_def)
    moreover have "subseq [] ?nf" by simp
    ultimately show ?thesis by blast
  next
    case False
    let ?ss = "filter (\<lambda>search. ToLower u (Keyword search) = ToLower u ?tk) ?nf"
    have "subseq ?ss ?nf" by (rule subseq_filter_left)
    moreover have "WebSearchPlugin_Query u r query = map ?mk ?ss"
    proof -
      have "?ss = filter (\<lambda>search. \<not> IsFallback search \<and> Enabled search \<and>
                  ToLower u (Keyword search) = ToLower u ?tk) (webSearches r)"
        unfolding filter_filter by (rule filter_cong) auto
      then show ?thesis
        using False by (simp add: WebSearchPlugin_Query_def Let_def Query_loop_map_filter)
    qed
    ultimately show ?thesis by blast
  qed
next
  show "WebSearchPlugin_QueryFallback u r query =
     map (\<lambda>search. QueryResult_zero
            \<lparr>Title := replaceVariables u (ws_Title search) (RawQuery query),
             Score := 100,
             Icon := ws_Icon search,
             Actions :=
               [\<lparr>Name = ''Search'', act_Icon = WoxImage_zero,
                 PreventHideAfterAction = False,
                 Action = ShellOpenUrls (Urls search) (RawQuery query)\<rparr>]\<rparr>)
       (filter (\<lambda>search. Enabled search \<and> IsFallback search) (webSearches r))"
    by (simp add: WebSearchPlugin_QueryFallback_def QueryFallback_loop_map_filter)
next
  show "set (filter (\<lambda>search. Enabled search \<and> \<not> IsFallback search) (webSearches r)) \<inter>
   set (filter (\<lambda>search. Enabled search \<and> IsFallback search) (webSearches r)) = {}"
    by auto
qed

text \<open>The theorem at the example configuration and the query \<open>g wox\<close>.\<close>

theorem WebSearch_fallback_never_mixed_witness:
  "map Title (WebSearchPlugin_QueryFallback ex_unicode ex_plugin \<lparr>RawQuery = ''g wox''\<rparr>) =
     [''Search DuckDuckGo for g wox''] \<and>
   set (filter (\<lambda>search. Enabled search \<and> \<not> IsFallback search) (webSearches ex_plugin)) \<inter>
   set (filter (\<lambda>search. Enabled search \<and> IsFallback search) (webSearches ex_plugin)) = {}"
proof -
  note inst = WebSearch_fallback_never_mixed
      [where u = ex_unicode and r = ex_plugin and query = "\<lparr>RawQuery = ''g wox''\<rparr>"]
  have "map Title (WebSearchPlugin_QueryFallback ex_unicode ex_plugin \<lparr>RawQuery = ''g wox''\<rparr>) =
     map Title (map (\<lambda>search. QueryResult_zero
            \<lparr>Title := replaceVariables ex_unicode (ws_Title search) (RawQuery \<lparr>RawQuery = ''g wox''\<rparr>),
             Score := 100,
             Icon := ws_Icon search,
             Actions :=
               [\<lparr>Name = ''Search'', act_Icon = WoxImage_zero,
                 PreventHideAfterAction = False,
                 Action = ShellOpenUrls (Urls search) (RawQuery \<lparr>RawQuery = ''g wox''\<rparr>)\<rparr>]\<rparr>)
       (filter (\<lambda>search. Enabled search \<and> IsFallback search) (webSearches ex_plugin)))"
    using inst by simp
  also have "\<dots> = [''Search DuckDuckGo for g wox'']"
    by code_simp
  finally show ?thesis using inst by blast
qed

text \<open>
  Claim C7.  Every result of \<open>Query\<close> and of \<open>QueryFallback\<close> has the score 100.
\<close>

theorem WebSearch_score_100:
  "res \<in> set (WebSearchPlugin_Query u r query) \<union> set (WebSearchPlugin_QueryFallback u r query) \<Longrightarrow>
     Score res = 100"
  by (auto simp: WebSearchPlugin_Query_def WebSearchPlugin_QueryFallback_def Let_def
        Query_loop_map_filter QueryFallback_loop_map_filter split: if_splits)

text \<open>The theorem at the first results for the example configuration.\<close>

theorem WebSearch_score_100_witness:
  "WebSearchPlugin_Query ex_unicode ex_plugin \<lparr>RawQuery = ''g wox''\<rparr> \<noteq> [] \<and>
   WebSearchPlugin_QueryFallback ex_unicode ex_plugin \<lparr>RawQuery = ''g wox''\<rparr> \<noteq> [] \<and>
   Score (hd (WebSearchPlugin_Query ex_unicode ex_plugin \<lparr>RawQuery = ''g wox''\<rparr>)) = 100 \<and>
   Score (hd (WebSearchPlugin_QueryFallback ex_unicode ex_plugin \<lparr>RawQuery = ''g wox''\<rparr>)) = 100"
proof -
  have a: "WebSearchPlugin_Query ex_unicode ex_plugin \<lparr>RawQuery = ''g wox''\<rparr> \<noteq> []" by code_simp
  have b: "WebSearchPlugin_QueryFallback ex_unicode ex_plugin \<lparr>RawQuery = ''g wox''\<rparr> \<noteq> []" by code_simp
  have "Score (hd (WebSearchPlugin_Query ex_unicode ex_plugin \<lparr>RawQuery = ''g wox''\<rparr>)) = 100"
    by (rule WebSearch_score_100
          [where u = ex_unicode and r = ex_plugin and query = "\<lparr>RawQuery = ''g wox''\<rparr>"]) (use a in simp)
  moreover have "Score (hd (WebSearchPlugin_QueryFallback ex_unicode ex_plugin \<lparr>RawQuery = ''g wox''\<rparr>)) = 100"
    by (rule WebSearch_score_100
          [where u = ex_unicode and r = ex_plugin and query = "\<lparr>RawQuery = ''g wox''\<rparr>"]) (use b in simp)
  ultimately show ?thesis using a b by blast
qed

text \<open>
  Claim C2, as stated, at the example configuration and the query \<open>g {upper_query}\<close>.  The
  text after the keyword is \<open>{upper_query}\<close>; replacing the placeholder of the title by
  it would give \<open>Search Google for {upper_query}\<close>, but the third pass of
  \<open>replaceVariables\<close> rewrites the text that the first pass has put in.  All the texts
  are ASCII, so the case maps take their bytewise path.
\<close>

theorem WebSearch_Query_titles_counterexample:
  "map Title (WebSearchPlugin_Query ex_unicode ex_plugin \<lparr>RawQuery = ''g {upper_query}''\<rparr>) =
     [''Search Google for {UPPER_QUERY}''] \<and>
   Join (drop 1 (Split ''g {upper_query}'' CHR '' '')) '' '' = ''{upper_query}'' \<and>
   replaceVariables_one_pass ex_unicode ''Search Google for {query}'' ''{upper_query}'' =
     ''Search Google for {upper_query}'' \<and>
   map Title (WebSearchPlugin_Query ex_unicode ex_plugin \<lparr>RawQuery = ''g {upper_query}''\<rparr>) \<noteq>
     [replaceVariables_one_pass ex_unicode ''Search Google for {query}''
        (Join (drop 1 (Split ''g {upper_query}'' CHR '' '')) '' '')]"
  by code_simp

text \<open>
  Claim C2, amended.  \<open>Query\<close> returns nothing when the raw query has at most one token,
  that is when it contains no space.  Otherwise it returns one result for each entry that is
  enabled, is not a fallback and whose keyword equals the first token up to case, in the
  order of the configuration.  The title of the result is the title of the entry after three
  passes, each over the output of the one before: every \<open>{query}\<close> is replaced by the
  remaining tokens joined by spaces, then every \<open>{lower_query}\<close> by that text in lower
  case, then every \<open>{upper_query}\<close> by that text in upper case.  Lower and upper case
  are those of \<open>strings.ToLower\<close> and \<open>strings.ToUpper\<close>: bytewise on ASCII text, and
  through the Unicode maps \<open>u\<close>, whatever they are, on any other text.
\<close>

theorem WebSearch_Query_three_passes:
  "(length (Split (RawQuery query) CHR '' '') \<le> 1 \<longrightarrow> WebSearchPlugin_Query u r query = []) \<and>
   (length (Split (RawQuery query) CHR '' '') \<le> 1 \<longleftrightarrow> CHR '' '' \<notin> set (RawQuery query)) \<and>
   (1 < length (Split (RawQuery query) CHR '' '') \<longrightarrow>
      WebSearchPlugin_Query u r query =
        map (\<lambda>search. QueryResult_zero
               \<lparr>Title :=
                  ReplaceAll
                    (ReplaceAll
                       (ReplaceAll (ws_Title search) ''{query}''
                          (Join (tl (Split (RawQuery query) CHR '' '')) '' ''))
                       ''{lower_query}''
                       (ToLower u (Join (tl (Split (RawQuery query) CHR '' '')) '' '')))
                    ''{upper_query}''
                    (ToUpper u (Join (tl (Split (RawQuery query) CHR '' '')) '' '')),
                Score := 100,
                Icon := ws_Icon search,
                Actions :=
                  [\<lparr>Name = ''Search'', act_Icon = WoxImage_zero,
                    PreventHideAfterAction = False,
                    Action = ShellOpenUrls (Urls search)
                               (Join (tl (Split (RawQuery query) CHR '' '')) '' '')\<rparr>]\<rparr>)
          (filter (\<lambda>search. Enabled search \<and> \<not> IsFallback search \<and>
                     ToLower u (Keyword search) = ToLower u (hd (Split (RawQuery query) CHR '' '')))
             (webSearches r)))"
proof (intro conjI impI)
  assume "length (Split (RawQuery query) CHR '' '') \<le> 1"
  then show "WebSearchPlugin_Query u r query = []"
    by (simp add: WebSearchPlugin_Query_def)
next
  show "length (Split (RawQuery query) CHR '' '') \<le> 1 \<longleftrightarrow> CHR '' '' \<notin> set (RawQuery query)"
    by (simp add: length_Split count_list_0_iff)
next
  let ?qs = "Split (RawQuery query) CHR '' ''"
  assume long: "1 < length ?qs"
  then have hd0: "?qs ! 0 = hd ?qs"
    by (cases ?qs) auto
  have feq: "filter (\<lambda>search. Enabled search \<and> \<not> IsFallback search \<and>
                     ToLower u (Keyword search) = ToLower u (hd ?qs)) (webSearches r) =
             filter (\<lambda>search. \<not> IsFallback search \<and> Enabled search \<and>
                     ToLower u (Keyword search) = ToLower u (hd ?qs)) (webSearches r)"
    by (rule filter_cong) auto
  from long show "WebSearchPlugin_Query u r query =
        map (\<lambda>search. QueryResult_zero
               \<lparr>Title :=
                  ReplaceAll
                    (ReplaceAll
                       (ReplaceAll (ws_Title search) ''{query}''
                          (Join (tl ?qs) '' ''))
                       ''{lower_query}''
                       (ToLower u (Join (tl ?qs) '' '')))
                    ''{upper_query}''
                    (ToUpper u (Join (tl ?qs) '' '')),
                Score := 100,
                Icon := ws_Icon search,
                Actions :=
                  [\<lparr>Name = ''Search'', act_Icon = WoxImage_zero,
                    PreventHideAfterAction = False,
                    Action = ShellOpenUrls (Urls search)
                               (Join (tl ?qs) '' '')\<rparr>]\<rparr>)
          (filter (\<lambda>search. Enabled search \<and> \<not> IsFallback search \<and>
                     ToLower u (Keyword search) = ToLower u (hd ?qs))
             (webSearches r))"
    unfolding feq
    by (simp add: WebSearchPlugin_Query_def Let_def Query_loop_map_filter hd0
          replaceVariables_def drop_Suc)
qed

text \<open>The theorem at a query of three tokens and at a query of one token.\<close>

theorem WebSearch_Query_three_passes_witness:
  "1 < length (Split ''G Isabelle HOL'' CHR '' '') \<and>
   map Title (WebSearchPlugin_Query ex_unicode ex_plugin \<lparr>RawQuery = ''G Isabelle HOL''\<rparr>) =
     [''Search Google for Isabelle HOL''] \<and>
   length (Split ''wox'' CHR '' '') \<le> 1 \<and>
   WebSearchPlugin_Query ex_unicode ex_plugin \<lparr>RawQuery = ''wox''\<rparr> = []"
proof -
  have long: "1 < length (Split (RawQuery \<lparr>RawQuery = ''G Isabelle HOL''\<rparr>) CHR '' '')"
    by code_simp
  have short: "length (Split (RawQuery \<lparr>RawQuery = ''wox''\<rparr>) CHR '' '') \<le> 1"
    by code_simp
  note a = WebSearch_Query_three_passes
      [where u = ex_unicode and query = "\<lparr>RawQuery = ''G Isabelle HOL''\<rparr>" and r = ex_plugin,
      THEN conjunct2, THEN conjunct2, rule_format, OF long]
  note b = WebSearch_Query_three_passes
      [where u = ex_unicode and query = "\<lparr>RawQuery = ''wox''\<rparr>" and r = ex_plugin,
      THEN conjunct1, rule_format, OF short]
  have "map Title (WebSearchPlugin_Query ex_unicode ex_plugin \<lparr>RawQuery = ''G Isabelle HOL''\<rparr>) =
     [''Search Google for Isabelle HOL'']"
    unfolding a by code_simp
  with long short b show ?thesis by simp
qed

section \<open>Properties of the icon indexing\<close>

lemma sort_eq_of_mset_eq:
  fixes xs ys :: "'a::linorder list"
  assumes "mset xs = mset ys"
  shows "sort xs = sort ys"
  by (rule properties_for_sort) (simp_all add: assms)

lemma sort_not_Nil:
  fixes xs :: "'a::linorder list"
  shows "xs \<noteq> [] \<Longrightarrow> sort xs \<noteq> []"
  by (metis length_0_conv length_sort)

lemma hd_sort_Min:
  fixes xs :: "'a::linorder list"
  assumes "xs \<noteq> []"
  shows "hd (sort xs) = Min (set xs)"
proof -
  from sort_not_Nil [OF assms] obtain y ys where s: "sort xs = y # ys"
    by (cases "sort xs") auto
  have "set (y # ys) = set xs" using s by (metis set_sort)
  moreover have "sorted (y # ys)" using s by (metis sorted_sort)
  ultimately have "y \<in> set xs" and "\<forall>z \<in> set xs. y \<le> z"
    by auto
  then have "Min (set xs) = y"
    by (intro Min_eqI) auto
  with s show ?thesis by simp
qed

text \<open>
  Claim C9.  For two searches with the same URLs in any order (the list not empty),
  \<open>indexWebSearchIcon\<close> makes the same calls and returns the same icon: it asks for the icon
  of the least URL in the order of strings; when that fetch fails it logs the error and
  returns the default \<open>webSearchIcon\<close>, and no error is returned.
\<close>

theorem indexWebSearchIcon_order_independent:
  assumes "Urls a \<noteq> []" and "mset (Urls a) = mset (Urls b)"
  shows "indexWebSearchIcon getWebsiteIconWithCache a =
           indexWebSearchIcon getWebsiteIconWithCache b \<and>
         (case getWebsiteIconWithCache (Min (set (Urls a))) of
            Inl err \<Rightarrow>
              indexWebSearchIcon getWebsiteIconWithCache a =
                Inr (webSearchIcon,
                     [GetWebsiteIcon (Min (set (Urls a))),
                      LogError (''failed to get icon for '' @ Min (set (Urls a)) @ '': '' @ err)])
          | Inr img \<Rightarrow>
              indexWebSearchIcon getWebsiteIconWithCache a =
                Inr (img, [GetWebsiteIcon (Min (set (Urls a)))]))"
proof
  have "sort (Urls a) = sort (Urls b)"
    using assms(2) by (rule sort_eq_of_mset_eq)
  then show "indexWebSearchIcon getWebsiteIconWithCache a =
           indexWebSearchIcon getWebsiteIconWithCache b"
    by (simp add: indexWebSearchIcon_def)
next
  from sort_not_Nil [OF assms(1)] obtain y ys where s: "sort (Urls a) = y # ys"
    by (cases "sort (Urls a)") auto
  with hd_sort_Min [OF assms(1)] have y: "y = Min (set (Urls a))" by simp
  show "case getWebsiteIconWithCache (Min (set (Urls a))) of
            Inl err \<Rightarrow>
              indexWebSearchIcon getWebsiteIconWithCache a =
                Inr (webSearchIcon,
                     [GetWebsiteIcon (Min (set (Urls a))),
                      LogError (''failed to get icon for '' @ Min (set (Urls a)) @ '': '' @ err)])
          | Inr img \<Rightarrow>
              indexWebSearchIcon getWebsiteIconWithCache a =
                Inr (img, [GetWebsiteIcon (Min (set (Urls a)))])"
    using s y by (simp add: indexWebSearchIcon_def split: sum.splits)
qed

text \<open>
  The theorem at two searches whose URLs are listed in different orders, with a fetch that
  fails.
\<close>

theorem indexWebSearchIcon_order_independent_witness:
  "Urls ex_search_a \<noteq> [] \<and> mset (Urls ex_search_a) = mset (Urls ex_search_b) \<and>
   Urls ex_search_a \<noteq> Urls ex_search_b \<and>
   indexWebSearchIcon ex_fetch_fails ex_search_a = indexWebSearchIcon ex_fetch_fails ex_search_b \<and>
   indexWebSearchIcon ex_fetch_fails ex_search_a =
     Inr (webSearchIcon,
          [GetWebsiteIcon ''https://a.example/?q={query}'',
           LogError ''failed to get icon for https://a.example/?q={query}: timeout''])"
proof -
  have ne: "Urls ex_search_a \<noteq> []" by (simp add: ex_search_a_def)
  have ms: "mset (Urls ex_search_a) = mset (Urls ex_search_b)"
    by (simp add: ex_search_a_def ex_search_b_def)
  have df: "Urls ex_search_a \<noteq> Urls ex_search_b"
    by (simp add: ex_search_a_def ex_search_b_def)
  note inst = indexWebSearchIcon_order_independent [OF ne ms, of ex_fetch_fails]
  have ev: "indexWebSearchIcon ex_fetch_fails ex_search_a =
     Inr (webSearchIcon,
          [GetWebsiteIcon ''https://a.example/?q={query}'',
           LogError ''failed to get icon for https://a.example/?q={query}: timeout''])"
    by (simp add: indexWebSearchIcon_def ex_search_a_def ex_fetch_fails_def)
  from ne ms df inst ev show ?thesis by blast
qed

section \<open>Properties of the chat plugin\<close>



lemma mset_insert_Slice: "mset (insert_Slice lt x ys) = add_mset x (mset ys)"
  by (induction ys) auto

lemma mset_sort_Slice: "mset (sort_Slice lt xs) = mset xs"
  by (induction xs) (auto simp: sort_Slice_def mset_insert_Slice)

lemma set_insert_Slice: "set (insert_Slice lt x ys) = insert x (set ys)"
  by (induction ys) auto

lemma sorted_insert_Slice:
  fixes key :: "'a \<Rightarrow> int"
  assumes lt: "\<And>a b. lt a b \<longleftrightarrow> key b < key a"
  shows "sorted_wrt (\<lambda>a b. key b \<le> key a) ys \<Longrightarrow>
         sorted_wrt (\<lambda>a b. key b \<le> key a) (insert_Slice lt x ys)"
proof (induction ys)
  case Nil
  then show ?case by simp
next
  case (Cons y ys)
  show ?case
  proof (cases "lt x y")
    case True
    then have "key y < key x" by (simp add: lt)
    with Cons.prems show ?thesis using True by fastforce
  next
    case False
    then have "key x \<le> key y" by (simp add: lt)
    with Cons False show ?thesis by (auto simp: set_insert_Slice)
  qed
qed

lemma sorted_sort_Slice:
  fixes key :: "'a \<Rightarrow> int"
  assumes lt: "\<And>a b. lt a b \<longleftrightarrow> key b < key a"
  shows "sorted_wrt (\<lambda>a b. key b \<le> key a) (sort_Slice lt xs)"
proof (induction xs)
  case Nil
  show ?case by (simp add: sort_Slice_def)
next
  case (Cons x xs)
  then show ?case
    using sorted_insert_Slice [of lt key "sort_Slice lt xs" x, OF lt]
    by (simp add: sort_Slice_def)
qed

lemma loadChats_sorted:
  assumes "loadChats env r = Inr cs"
  shows "sorted_wrt (\<lambda>a b. UpdatedAt b \<le>s UpdatedAt a) cs"
proof -
  have "sorted_wrt (\<lambda>a b. sint (UpdatedAt b) \<le> sint (UpdatedAt a))
          (sort_Slice (\<lambda>a b. UpdatedAt b <s UpdatedAt a) xs)" for xs :: "AIChatData list"
    by (rule sorted_sort_Slice) (simp add: word_sless_alt)
  then show ?thesis
    using assms
    by (auto simp: loadChats_def Let_def word_sle_eq split: if_splits sum.splits)
qed

lemma loadChats_mset:
  assumes "loadChats env r = Inr cs" and "settings r aiChatsSettingKey \<noteq> []"
  shows "json_Unmarshal_chats env (settings r aiChatsSettingKey) = Inr loaded \<longrightarrow> mset cs = mset loaded"
  using assms by (auto simp: loadChats_def Let_def mset_sort_Slice split: if_splits sum.splits)

lemma sint_sub_no_overflow:
  fixes a b :: "64 word"
  assumes "- (2 ^ 63) \<le> sint a - sint b" and "sint a - sint b < 2 ^ 63"
  shows "sint (a - b) = sint a - sint b"
proof -
  have "sint (a - b) = signed_take_bit 63 (sint a - sint b)"
    by (simp add: sint_word_ariths)
  also have "\<dots> = sint a - sint b"
    using assms by (simp add: signed_take_bit_int_eq_self)
  finally show ?thesis .
qed

lemma getResultGroup_age:
  assumes "- (2 ^ 63) \<le> sint (GetSystemTimestamp env) - sint (UpdatedAt chat)"
    and "sint (GetSystemTimestamp env) - sint (UpdatedAt chat) < 2 ^ 63"
  shows "getResultGroup env chat =
           (if sint (GetSystemTimestamp env) - sint (UpdatedAt chat) < 86400000
            then (''Today'', 90)
            else if sint (GetSystemTimestamp env) - sint (UpdatedAt chat) < 172800000
            then (''Yesterday'', 80)
            else (''History'', 10))"
  using sint_sub_no_overflow [OF assms]
  by (simp add: getResultGroup_def word_sless_alt)


lemma getResultGroup_mono:
  assumes "age_in_int64 env a" and "age_in_int64 env b"
    and "UpdatedAt a \<le>s UpdatedAt b"
  shows "snd (getResultGroup env a) \<le>s snd (getResultGroup env b)"
proof -
  from assms(3) have "sint (UpdatedAt a) \<le> sint (UpdatedAt b)"
    by (simp add: word_sle_eq)
  then have "sint (GetSystemTimestamp env) - sint (UpdatedAt b) \<le>
             sint (GetSystemTimestamp env) - sint (UpdatedAt a)"
    by simp
  moreover note getResultGroup_age [of env a] getResultGroup_age [of env b]
  ultimately show ?thesis
    using assms(1,2) by (simp add: age_in_int64_def)
qed

lemma getResultGroup_below_1000: "snd (getResultGroup env chat) <s 1000"
  by (simp add: getResultGroup_def)

lemma getDefaultModel_chats: "chats (snd (getDefaultModel env r)) = chats r"
  by (simp add: getDefaultModel_def Let_def split: sum.splits list.splits)

lemma getNewChatPreviewData_chats: "chats (snd (getNewChatPreviewData env r)) = chats r"
proof -
  have "chats (snd (getDefaultModel env (r\<lparr>uuid_count := uuid_count r + 1\<rparr>))) = chats r"
    by (simp add: getDefaultModel_chats)
  then show ?thesis
    by (auto simp: getNewChatPreviewData_def Let_def split: prod.splits sum.splits)
qed

lemma getNewChatPreviewData_group:
  "fst (getNewChatPreviewData env r) = QueryResult_zero \<or>
   (Group (fst (getNewChatPreviewData env r)) = ''New Chat'' \<and>
    GroupScore (fst (getNewChatPreviewData env r)) = 1000)"
  by (simp add: getNewChatPreviewData_def Let_def split: prod.splits sum.splits)

lemma Query_loop_GroupScore:
  "map GroupScore (fst (AIChatPlugin_Query_loop env query i cs (results, r))) =
     map GroupScore results @
     map (\<lambda>chat. snd (getResultGroup env chat))
       (filter (\<lambda>chat. isl (json_Marshal_chat env chat) = False) cs)"
proof (induction cs arbitrary: i results r)
  case Nil
  show ?case by simp
next
  case (Cons chat rest)
  show ?case
  proof (cases "json_Marshal_chat env chat")
    case (Inl err)
    then show ?thesis by (simp add: Cons.IH)
  next
    case (Inr previewData)
    then show ?thesis
      by (simp add: Cons.IH Let_def split: prod.splits)
  qed
qed

lemma sorted_wrt_map_GroupScore:
  "sorted_wrt (\<lambda>x y. GroupScore y \<le>s GroupScore x) rs \<longleftrightarrow>
   sorted_wrt (\<lambda>x y. y \<le>s x) (map GroupScore rs)"
  by (simp add: sorted_wrt_map)

lemma chat_scores_sorted:
  assumes "\<forall>chat \<in> set cs. age_in_int64 env chat"
    and "sorted_wrt (\<lambda>a b. UpdatedAt b \<le>s UpdatedAt a) cs"
  shows "sorted_wrt (\<lambda>x y. y \<le>s x)
           (map (\<lambda>chat. snd (getResultGroup env chat)) (filter P cs))"
  using assms
proof (induction cs)
  case Nil
  show ?case by simp
next
  case (Cons c cs)
  then have "\<forall>d \<in> set cs. snd (getResultGroup env d) \<le>s snd (getResultGroup env c)"
    by (auto intro: getResultGroup_mono)
  with Cons show ?case by (auto simp: sorted_wrt_map)
qed


lemma Query_GroupScores:
  "map GroupScore (fst (AIChatPlugin_Query env r query)) =
     GroupScore (fst (getNewChatPreviewData env (r\<lparr>resultChatIdMap := Map.empty\<rparr>))) #
     map (\<lambda>chat. snd (getResultGroup env chat))
       (filter (\<lambda>chat. isl (json_Marshal_chat env chat) = False) (chats r))"
proof -
  obtain newChat r1 where n: "getNewChatPreviewData env (r\<lparr>resultChatIdMap := Map.empty\<rparr>) = (newChat, r1)"
    by (cases "getNewChatPreviewData env (r\<lparr>resultChatIdMap := Map.empty\<rparr>)")
  have "chats r1 = chats r"
    using getNewChatPreviewData_chats [of env "r\<lparr>resultChatIdMap := Map.empty\<rparr>"] n by simp
  with n show ?thesis
    by (simp add: AIChatPlugin_Query_def Query_loop_GroupScore)
qed

lemma Query_loop_prefix:
  "take (length results) (fst (AIChatPlugin_Query_loop env query i cs (results, r'))) = results"
proof (induction cs arbitrary: i results r')
  case Nil
  show ?case by simp
next
  case (Cons chat rest)
  show ?case
  proof (cases "json_Marshal_chat env chat")
    case (Inl err)
    then show ?thesis using Cons.IH by simp
  next
    case (Inr previewData)
    obtain g gs where grp: "getResultGroup env chat = (g, gs)"
      by (cases "getResultGroup env chat")
    let ?res = "fst (AIChatPlugin_Query_loop env query i (chat # rest) (results, r'))"
    from Inr grp obtain x r'' where
      step: "?res = fst (AIChatPlugin_Query_loop env query (i + 1) rest (results @ [x], r''))"
      by (simp add: Let_def)
    from Cons.IH [where i = "i + 1" and results = "results @ [x]" and r' = r''] step
    have "take (Suc (length results)) ?res = results @ [x]"
      by simp
    moreover have "take (length results) ?res =
        take (length results) (take (Suc (length results)) ?res)"
      by simp
    ultimately show ?thesis by simp
  qed
qed

lemma Query_hd:
  "hd (fst (AIChatPlugin_Query env r query)) =
     fst (getNewChatPreviewData env (r\<lparr>resultChatIdMap := Map.empty\<rparr>))"
proof -
  obtain newChat r1 where
    n: "getNewChatPreviewData env (r\<lparr>resultChatIdMap := Map.empty\<rparr>) = (newChat, r1)"
    by (cases "getNewChatPreviewData env (r\<lparr>resultChatIdMap := Map.empty\<rparr>)")
  let ?res = "fst (AIChatPlugin_Query_loop env query 0 (chats r1) ([newChat], r1))"
  have "take (length [newChat]) ?res = [newChat]"
    by (rule Query_loop_prefix)
  then have "hd ?res = newChat"
    by (cases ?res) simp_all
  with n show ?thesis
    by (simp add: AIChatPlugin_Query_def)
qed

lemma saveChats_chats: "chats (saveChats env r) = chats r"
  by (simp add: saveChats_def split: sum.splits)

lemma Chat_find_loop_found:
  "snd (Chat_find_loop aiChatData cs) \<longleftrightarrow> chat_Id aiChatData \<in> chat_Id ` set cs"
  by (induction cs) (auto split: prod.splits)

lemma Chat_new_id_sorted:
  assumes "chat_Id aiChatData \<notin> chat_Id ` set (chats r)"
  shows "sorted_wrt (\<lambda>a b. UpdatedAt b \<le>s UpdatedAt a) (chats (Chat env aiChatData r))"
proof -
  have srt: "sorted_wrt (\<lambda>a b. sint (UpdatedAt b) \<le> sint (UpdatedAt a))
          (sort_Slice (\<lambda>a b. UpdatedAt b <s UpdatedAt a) xs)" for xs :: "AIChatData list"
    by (rule sorted_sort_Slice) (simp add: word_sless_alt)
  let ?d = "aiChatData
            \<lparr>Conversations := Conversations aiChatData @
               [\<lparr>conv_Id = uuid_NewString env (uuid_count r),
                 conv_Role = ConversationRoleAI env,
                 conv_Text = [],
                 conv_Timestamp = GetSystemTimestamp env\<rparr>]\<rparr>"
  have "\<not> snd (Chat_find_loop ?d (chats r))"
    using assms by (simp add: Chat_find_loop_found)
  then show ?thesis
    using srt
    by (auto simp: Chat_def Let_def saveChats_chats word_sle_eq split: prod.splits)
qed

text \<open>
  Claim C3, as stated, fails in two ways.

  First, at a chat whose \<open>UpdatedAt\<close> is the least \<open>int64\<close> and a chat updated at the
  epoch, the time being 1700000000000.  The age of the first chat overflows: the chat is
  put under \<open>Today\<close> with the score 90, while the chat updated later gets \<open>History\<close> and 10;
  \<open>Query\<close> emits the scores 1000, 10, 90 for the list ordered as \<open>loadChats\<close> orders it.

  Second, with ages far from any overflow.  The plugin holds two chats, updated thirty
  hours and ten days ago, in the order of \<open>loadChats\<close>; the user continues the older one.
  \<open>Chat\<close> finds its id and replaces it in place, without sorting again (the branch for a
  new id does sort): the list is now ordered thirty hours, one second, and \<open>Query\<close> emits
  the scores 1000, 80, 90.
\<close>

theorem AIChat_group_scores_counterexample:
  "UpdatedAt (ex_chat ''old'' (- 9223372036854775808)) <s UpdatedAt (ex_chat ''epoch'' 0) \<and>
   getResultGroup ex_chat_env (ex_chat ''old'' (- 9223372036854775808)) = (''Today'', 90) \<and>
   getResultGroup ex_chat_env (ex_chat ''epoch'' 0) = (''History'', 10) \<and>
   snd (getResultGroup ex_chat_env (ex_chat ''epoch'' 0)) <s
     snd (getResultGroup ex_chat_env (ex_chat ''old'' (- 9223372036854775808))) \<and>
   sorted_wrt (\<lambda>a b. UpdatedAt b \<le>s UpdatedAt a) ex_chats_extreme \<and>
   map GroupScore
     (fst (AIChatPlugin_Query ex_chat_env (ex_chat_plugin ex_chats_extreme)
            \<lparr>RawQuery = ''chat ''\<rparr>)) = [1000, 10, 90] \<and>
   sorted_wrt (\<lambda>a b. UpdatedAt b \<le>s UpdatedAt a) ex_chats_before_Chat \<and>
   map (\<lambda>chat. (chat_Id chat, UpdatedAt chat))
     (chats (Chat ex_chat_env ex_chat_continued (ex_chat_plugin ex_chats_before_Chat))) =
     [(''c2'', 1699892000000), (''c3'', 1699999999000)] \<and>
   list_all (age_in_int64 ex_chat_env)
     (chats (Chat ex_chat_env ex_chat_continued (ex_chat_plugin ex_chats_before_Chat))) \<and>
   map GroupScore
     (fst (AIChatPlugin_Query ex_chat_env
            (Chat ex_chat_env ex_chat_continued (ex_chat_plugin ex_chats_before_Chat))
            \<lparr>RawQuery = ''chat ''\<rparr>)) = [1000, 80, 90]"
  by (intro conjI; code_simp)

text \<open>
  Claim C3, amended.  The chat plugin declares the feature \<open>ignore auto score\<close>.
  \<open>loadChats\<close> returns the stored chats, permuted into non-increasing order of \<open>UpdatedAt\<close>;
  \<open>Init\<close> leaves the plugin with its chats in that order, and so does \<open>Chat\<close> when it adds
  a chat with a new id.  For a chat whose age (the time minus \<open>UpdatedAt\<close>) is an \<open>int64\<close>,
  \<open>getResultGroup\<close> at one instant gives \<open>Today\<close> and 90 for an age below 24 hours,
  \<open>Yesterday\<close> and 80 for an age from 24 hours and below 48 hours, \<open>History\<close> and 10
  otherwise; of two such chats the one updated later has no smaller score.  Every group
  score of a chat is below the 1000 of the \<open>New Chat\<close> result.  When the ages of the chats
  of the plugin are \<open>int64\<close> values and the chats are in non-increasing order of
  \<open>UpdatedAt\<close>, the results that \<open>Query\<close> emits for the chats have non-increasing group
  scores, and so has the whole list when it starts with the \<open>New Chat\<close> result.  Nothing is
  said of the order after \<open>Chat\<close> has replaced a chat in place.
\<close>

theorem AIChat_group_scores:
  assumes "\<forall>chat \<in> set (chats r). age_in_int64 env chat"
    and "sorted_wrt (\<lambda>a b. UpdatedAt b \<le>s UpdatedAt a) (chats r)"
  shows
   "MetadataFeatureIgnoreAutoScore \<in> feat_Name ` set (Features (AIChatPlugin_GetMetadata icon)) \<and>
    (loadChats env r0 = Inr cs \<longrightarrow> sorted_wrt (\<lambda>a b. UpdatedAt b \<le>s UpdatedAt a) cs) \<and>
    (settings r0 aiChatsSettingKey \<noteq> [] \<and>
     json_Unmarshal_chats env (settings r0 aiChatsSettingKey) = Inr loaded \<longrightarrow>
       (\<exists>cs'. loadChats env r0 = Inr cs' \<and> mset cs' = mset loaded)) \<and>
    sorted_wrt (\<lambda>a b. UpdatedAt b \<le>s UpdatedAt a) (chats (Init_chats env r0)) \<and>
    (chat_Id aiChatData \<notin> chat_Id ` set (chats r0) \<longrightarrow>
       sorted_wrt (\<lambda>a b. UpdatedAt b \<le>s UpdatedAt a) (chats (Chat env aiChatData r0))) \<and>
    (age_in_int64 env chat \<longrightarrow>
       getResultGroup env chat =
         (if sint (GetSystemTimestamp env) - sint (UpdatedAt chat) < 1000 * 60 * 60 * 24
          then (''Today'', 90)
          else if sint (GetSystemTimestamp env) - sint (UpdatedAt chat) < 1000 * 60 * 60 * 24 * 2
          then (''Yesterday'', 80)
          else (''History'', 10))) \<and>
    (age_in_int64 env a \<and> age_in_int64 env b \<and> UpdatedAt a \<le>s UpdatedAt b \<longrightarrow>
       snd (getResultGroup env a) \<le>s snd (getResultGroup env b)) \<and>
    snd (getResultGroup env chat) <s 1000 \<and>
    (fst (getNewChatPreviewData env r0) \<noteq> QueryResult_zero \<longrightarrow>
       Group (fst (getNewChatPreviewData env r0)) = ''New Chat'' \<and>
       GroupScore (fst (getNewChatPreviewData env r0)) = 1000) \<and>
    sorted_wrt (\<lambda>x y. GroupScore y \<le>s GroupScore x)
      (tl (fst (AIChatPlugin_Query env r query))) \<and>
    (hd (fst (AIChatPlugin_Query env r query)) \<noteq> QueryResult_zero \<longrightarrow>
       sorted_wrt (\<lambda>x y. GroupScore y \<le>s GroupScore x) (fst (AIChatPlugin_Query env r query)))"
proof (intro conjI impI)
  show "MetadataFeatureIgnoreAutoScore \<in> feat_Name ` set (Features (AIChatPlugin_GetMetadata icon))"
    by (simp add: AIChatPlugin_GetMetadata_def AIChatPlugin_Features_def)
next
  assume "loadChats env r0 = Inr cs"
  then show "sorted_wrt (\<lambda>a b. UpdatedAt b \<le>s UpdatedAt a) cs"
    by (rule loadChats_sorted)
next
  assume "settings r0 aiChatsSettingKey \<noteq> [] \<and>
     json_Unmarshal_chats env (settings r0 aiChatsSettingKey) = Inr loaded"
  then show "\<exists>cs'. loadChats env r0 = Inr cs' \<and> mset cs' = mset loaded"
    by (simp add: loadChats_def mset_sort_Slice)
next
  show "sorted_wrt (\<lambda>a b. UpdatedAt b \<le>s UpdatedAt a) (chats (Init_chats env r0))"
    using loadChats_sorted [of env r0]
    by (cases "loadChats env r0") (simp_all add: Init_chats_def)
next
  assume "chat_Id aiChatData \<notin> chat_Id ` set (chats r0)"
  then show "sorted_wrt (\<lambda>a b. UpdatedAt b \<le>s UpdatedAt a) (chats (Chat env aiChatData r0))"
    by (rule Chat_new_id_sorted)
next
  assume "age_in_int64 env chat"
  then show "getResultGroup env chat =
         (if sint (GetSystemTimestamp env) - sint (UpdatedAt chat) < 1000 * 60 * 60 * 24
          then (''Today'', 90)
          else if sint (GetSystemTimestamp env) - sint (UpdatedAt chat) < 1000 * 60 * 60 * 24 * 2
          then (''Yesterday'', 80)
          else (''History'', 10))"
    using getResultGroup_age [of env chat] by (simp add: age_in_int64_def)
next
  assume "age_in_int64 env a \<and> age_in_int64 env b \<and> UpdatedAt a \<le>s UpdatedAt b"
  then show "snd (getResultGroup env a) \<le>s snd (getResultGroup env b)"
    by (simp add: getResultGroup_mono)
next
  show "snd (getResultGroup env chat) <s 1000"
    by (rule getResultGroup_below_1000)
next
  assume "fst (getNewChatPreviewData env r0) \<noteq> QueryResult_zero"
  then show "Group (fst (getNewChatPreviewData env r0)) = ''New Chat''"
    and "GroupScore (fst (getNewChatPreviewData env r0)) = 1000"
    using getNewChatPreviewData_group [of env r0] by simp_all
next
  let ?scores = "map (\<lambda>chat. snd (getResultGroup env chat))
       (filter (\<lambda>chat. isl (json_Marshal_chat env chat) = False) (chats r))"
  have tail: "sorted_wrt (\<lambda>x y. y \<le>s x) ?scores"
    using assms by (rule chat_scores_sorted)
  have scores: "map GroupScore (fst (AIChatPlugin_Query env r query)) =
      GroupScore (fst (getNewChatPreviewData env (r\<lparr>resultChatIdMap := Map.empty\<rparr>))) # ?scores"
    by (rule Query_GroupScores)
  then have "map GroupScore (tl (fst (AIChatPlugin_Query env r query))) = ?scores"
    by (simp add: map_tl)
  with tail show "sorted_wrt (\<lambda>x y. GroupScore y \<le>s GroupScore x)
      (tl (fst (AIChatPlugin_Query env r query)))"
    by (simp add: sorted_wrt_map_GroupScore)
  assume "hd (fst (AIChatPlugin_Query env r query)) \<noteq> QueryResult_zero"
  then have "GroupScore (fst (getNewChatPreviewData env (r\<lparr>resultChatIdMap := Map.empty\<rparr>))) = 1000"
    using getNewChatPreviewData_group [of env "r\<lparr>resultChatIdMap := Map.empty\<rparr>"]
    by (simp add: Query_hd)
  moreover have "\<forall>s \<in> set ?scores. s \<le>s 1000"
    using getResultGroup_below_1000 [of env] by (auto simp: word_sle_eq word_sless_alt less_imp_le)
  ultimately have "sorted_wrt (\<lambda>x y. y \<le>s x) (map GroupScore (fst (AIChatPlugin_Query env r query)))"
    using tail scores by simp
  then show "sorted_wrt (\<lambda>x y. GroupScore y \<le>s GroupScore x) (fst (AIChatPlugin_Query env r query))"
    by (simp add: sorted_wrt_map_GroupScore)
qed

text \<open>The theorem at three chats updated one second, thirty hours and ten days ago.\<close>

theorem AIChat_group_scores_witness:
  "list_all (age_in_int64 ex_chat_env) (chats (ex_chat_plugin ex_chats_recent)) \<and>
   sorted_wrt (\<lambda>a b. UpdatedAt b \<le>s UpdatedAt a) (chats (ex_chat_plugin ex_chats_recent)) \<and>
   map GroupScore
     (fst (AIChatPlugin_Query ex_chat_env (ex_chat_plugin ex_chats_recent)
            \<lparr>RawQuery = ''chat ''\<rparr>)) = [1000, 90, 80, 10] \<and>
   sorted_wrt (\<lambda>x y. GroupScore y \<le>s GroupScore x)
     (fst (AIChatPlugin_Query ex_chat_env (ex_chat_plugin ex_chats_recent)
            \<lparr>RawQuery = ''chat ''\<rparr>))"
proof -
  have rng: "list_all (age_in_int64 ex_chat_env) (chats (ex_chat_plugin ex_chats_recent))"
    by (simp add: ex_chat_plugin_def ex_chats_recent_def ex_chat_def age_in_int64_def
          ex_chat_env_def)
  then have rng': "\<forall>chat \<in> set (chats (ex_chat_plugin ex_chats_recent)). age_in_int64 ex_chat_env chat"
    by (simp add: list_all_iff)
  have srt: "sorted_wrt (\<lambda>a b. UpdatedAt b \<le>s UpdatedAt a) (chats (ex_chat_plugin ex_chats_recent))"
    by (simp add: ex_chat_plugin_def ex_chats_recent_def ex_chat_def)
  have scores: "map GroupScore
     (fst (AIChatPlugin_Query ex_chat_env (ex_chat_plugin ex_chats_recent)
            \<lparr>RawQuery = ''chat ''\<rparr>)) = [1000, 90, 80, 10]"
    by code_simp
  have "GroupScore (hd (fst (AIChatPlugin_Query ex_chat_env (ex_chat_plugin ex_chats_recent)
            \<lparr>RawQuery = ''chat ''\<rparr>))) = 1000"
    by code_simp
  then have "hd (fst (AIChatPlugin_Query ex_chat_env (ex_chat_plugin ex_chats_recent)
            \<lparr>RawQuery = ''chat ''\<rparr>)) \<noteq> QueryResult_zero"
    by (auto simp: QueryResult_zero_def)
  with AIChat_group_scores [OF rng' srt, where query = "\<lparr>RawQuery = ''chat ''\<rparr>"]
  have "sorted_wrt (\<lambda>x y. GroupScore y \<le>s GroupScore x)
     (fst (AIChatPlugin_Query ex_chat_env (ex_chat_plugin ex_chats_recent)
            \<lparr>RawQuery = ''chat ''\<rparr>))"
    by blast
  with rng srt scores show ?thesis by blast
qed









section \<open>Properties of the HTTP handlers\<close>

lemma find_instance_Some:
  assumes "find_instance m pluginId = Some p"
  shows "p \<in> set (instances m)" and "md_Id (inst_Metadata (heap m p)) = pluginId"
  using assms by (auto simp: find_instance_def find_Some_iff)

lemma find_instance_None:
  "find_instance m pluginId = None \<longleftrightarrow>
     (\<forall>p \<in> set (instances m). md_Id (inst_Metadata (heap m p)) \<noteq> pluginId)"
  by (auto simp: find_instance_def find_None_iff)

lemma find_instance_first:
  assumes "find_instance m pluginId = Some p"
  shows "\<exists>i < length (instances m). instances m ! i = p \<and>
           (\<forall>j < i. md_Id (inst_Metadata (heap m (instances m ! j))) \<noteq> pluginId)"
  using assms by (auto simp: find_instance_def find_Some_iff)



lemma find_instance_exists:
  assumes "q \<in> set (instances m)" and "md_Id (inst_Metadata (heap m q)) = pluginId"
  shows "\<exists>p. find_instance m pluginId = Some p"
  using assms find_instance_None [of m pluginId] by (cases "find_instance m pluginId") auto

text \<open>
  Claim C5, as stated, at a request to disable the chat plugin when \<open>SaveSetting\<close> fails:
  the id matches the instance at address 1, whose \<open>Disabled\<close> is set to true, but the only
  call of \<open>SaveSetting\<close> returns an error, so the setting is not saved, and the handler
  answers with that error.
\<close>

theorem handlePluginDisable_Enable_counterexample:
  "1 \<in> set (instances ex_manager) \<and>
   md_Id (inst_Metadata (heap ex_manager 1)) = ''chat'' \<and>
   fst (handlePluginDisable ex_router_env_save_fails (Some ''chat'') ex_manager) =
     ErrorResponse ''can't disable plugin: disk full'' \<and>
   Disabled (Setting (heap (snd (handlePluginDisable ex_router_env_save_fails (Some ''chat'')
                                   ex_manager)) 1)) \<and>
   Instance_SaveSetting_calls
     (snd (handlePluginDisable ex_router_env_save_fails (Some ''chat'') ex_manager)) =
     [(1, \<lparr>Disabled = True, TriggerKeywords = []\<rparr>, Some ''disk full'')]"
  by (simp add: handlePluginDisable_def find_instance_def ex_manager_def ex_instance_def
        SaveSetting_def set_Disabled_def ex_router_env_save_fails_def ex_router_env_def)

text \<open>
  Claim C5, amended.  When the body has no \<open>id\<close> field, or no registered instance has that
  id, the handlers of \<open>/plugin/disable\<close> and \<open>/plugin/enable\<close> write an error response and
  leave the plugin manager as it is.  Otherwise the first registered instance with that id
  gets \<open>Disabled\<close> set to true (to false for enable) and \<open>SaveSetting\<close> is called on it once
  with that setting, while the instance at every other address is unchanged.  When the call
  returns no error the setting is saved and a success response is written; when it returns
  an error the handler writes that error, the flag staying changed in memory.
\<close>

theorem handlePluginDisable_Enable:
  "(idResult = None \<or>
    (\<exists>pluginId. idResult = Some pluginId \<and>
       (\<forall>q \<in> set (instances m). md_Id (inst_Metadata (heap m q)) \<noteq> pluginId)) \<longrightarrow>
      (\<exists>msg. fst (handlePluginDisable env idResult m) = ErrorResponse msg) \<and>
      snd (handlePluginDisable env idResult m) = m \<and>
      (\<exists>msg. fst (handlePluginEnable env idResult m) = ErrorResponse msg) \<and>
      snd (handlePluginEnable env idResult m) = m) \<and>
   (q \<in> set (instances m) \<and> idResult = Some (md_Id (inst_Metadata (heap m q))) \<longrightarrow>
      (\<exists>p i. i < length (instances m) \<and> instances m ! i = p \<and>
         (\<forall>j < i. md_Id (inst_Metadata (heap m (instances m ! j))) \<noteq>
                    md_Id (inst_Metadata (heap m q))) \<and>
         md_Id (inst_Metadata (heap m p)) = md_Id (inst_Metadata (heap m q)) \<and>
         Disabled (Setting (heap (snd (handlePluginDisable env idResult m)) p)) = True \<and>
         Disabled (Setting (heap (snd (handlePluginEnable env idResult m)) p)) = False \<and>
         heap (snd (handlePluginDisable env idResult m)) =
           (heap m)(p := (heap m p)\<lparr>Setting := (Setting (heap m p))\<lparr>Disabled := True\<rparr>\<rparr>) \<and>
         heap (snd (handlePluginEnable env idResult m)) =
           (heap m)(p := (heap m p)\<lparr>Setting := (Setting (heap m p))\<lparr>Disabled := False\<rparr>\<rparr>) \<and>
         (\<forall>p'. p' \<noteq> p \<longrightarrow>
            heap (snd (handlePluginDisable env idResult m)) p' = heap m p' \<and>
            heap (snd (handlePluginEnable env idResult m)) p' = heap m p') \<and>
         instances (snd (handlePluginDisable env idResult m)) = instances m \<and>
         instances (snd (handlePluginEnable env idResult m)) = instances m \<and>
         Instance_SaveSetting_calls (snd (handlePluginDisable env idResult m)) =
           Instance_SaveSetting_calls m @
           [(p, (Setting (heap m p))\<lparr>Disabled := True\<rparr>,
             Instance_SaveSetting env
               ((heap m p)\<lparr>Setting := (Setting (heap m p))\<lparr>Disabled := True\<rparr>\<rparr>))] \<and>
         Instance_SaveSetting_calls (snd (handlePluginEnable env idResult m)) =
           Instance_SaveSetting_calls m @
           [(p, (Setting (heap m p))\<lparr>Disabled := False\<rparr>,
             Instance_SaveSetting env
               ((heap m p)\<lparr>Setting := (Setting (heap m p))\<lparr>Disabled := False\<rparr>\<rparr>))] \<and>
         fst (handlePluginDisable env idResult m) =
           (case Instance_SaveSetting env
                   ((heap m p)\<lparr>Setting := (Setting (heap m p))\<lparr>Disabled := True\<rparr>\<rparr>) of
              None \<Rightarrow> SuccessResponse (DataString [])
            | Some e \<Rightarrow> ErrorResponse (''can't disable plugin: '' @ e)) \<and>
         fst (handlePluginEnable env idResult m) =
           (case Instance_SaveSetting env
                   ((heap m p)\<lparr>Setting := (Setting (heap m p))\<lparr>Disabled := False\<rparr>\<rparr>) of
              None \<Rightarrow> SuccessResponse (DataString [])
            | Some e \<Rightarrow> ErrorResponse (''can't enable plugin: '' @ e))))"
proof (intro conjI impI)
  assume "idResult = None \<or>
    (\<exists>pluginId. idResult = Some pluginId \<and>
       (\<forall>q \<in> set (instances m). md_Id (inst_Metadata (heap m q)) \<noteq> pluginId))"
  then have none: "idResult = None \<or> (\<exists>pluginId. idResult = Some pluginId \<and> find_instance m pluginId = None)"
    by (simp add: find_instance_None)
  from none show "\<exists>msg. fst (handlePluginDisable env idResult m) = ErrorResponse msg"
    by (auto simp: handlePluginDisable_def)
  from none show "snd (handlePluginDisable env idResult m) = m"
    by (auto simp: handlePluginDisable_def)
  from none show "\<exists>msg. fst (handlePluginEnable env idResult m) = ErrorResponse msg"
    by (auto simp: handlePluginEnable_def)
  from none show "snd (handlePluginEnable env idResult m) = m"
    by (auto simp: handlePluginEnable_def)
next
  let ?id = "md_Id (inst_Metadata (heap m q))"
  assume a: "q \<in> set (instances m) \<and> idResult = Some ?id"
  then obtain p where p: "find_instance m ?id = Some p"
    using find_instance_exists [of q m ?id] by blast
  from find_instance_first [OF p] obtain i where
    i: "i < length (instances m)" "instances m ! i = p"
       "\<forall>j < i. md_Id (inst_Metadata (heap m (instances m ! j))) \<noteq> ?id"
    by blast
  let ?on = "(heap m p)\<lparr>Setting := (Setting (heap m p))\<lparr>Disabled := True\<rparr>\<rparr>"
  let ?off = "(heap m p)\<lparr>Setting := (Setting (heap m p))\<lparr>Disabled := False\<rparr>\<rparr>"
  have dis: "snd (handlePluginDisable env idResult m) =
      (set_Disabled p True m)\<lparr>Instance_SaveSetting_calls :=
         Instance_SaveSetting_calls m @
         [(p, (Setting (heap m p))\<lparr>Disabled := True\<rparr>, Instance_SaveSetting env ?on)]\<rparr>"
    using a p
    by (simp add: handlePluginDisable_def SaveSetting_def set_Disabled_def split: option.splits)
  have en: "snd (handlePluginEnable env idResult m) =
      (set_Disabled p False m)\<lparr>Instance_SaveSetting_calls :=
         Instance_SaveSetting_calls m @
         [(p, (Setting (heap m p))\<lparr>Disabled := False\<rparr>, Instance_SaveSetting env ?off)]\<rparr>"
    using a p
    by (simp add: handlePluginEnable_def SaveSetting_def set_Disabled_def split: option.splits)
  have rd: "fst (handlePluginDisable env idResult m) =
           (case Instance_SaveSetting env ?on of
              None \<Rightarrow> SuccessResponse (DataString [])
            | Some e \<Rightarrow> ErrorResponse (''can't disable plugin: '' @ e))"
    using a p
    by (simp add: handlePluginDisable_def SaveSetting_def set_Disabled_def split: option.splits)
  have re: "fst (handlePluginEnable env idResult m) =
           (case Instance_SaveSetting env ?off of
              None \<Rightarrow> SuccessResponse (DataString [])
            | Some e \<Rightarrow> ErrorResponse (''can't enable plugin: '' @ e))"
    using a p
    by (simp add: handlePluginEnable_def SaveSetting_def set_Disabled_def split: option.splits)
  show "\<exists>p i. i < length (instances m) \<and> instances m ! i = p \<and>
         (\<forall>j < i. md_Id (inst_Metadata (heap m (instances m ! j))) \<noteq> ?id) \<and>
         md_Id (inst_Metadata (heap m p)) = ?id \<and>
         Disabled (Setting (heap (snd (handlePluginDisable env idResult m)) p)) = True \<and>
         Disabled (Setting (heap (snd (handlePluginEnable env idResult m)) p)) = False \<and>
         heap (snd (handlePluginDisable env idResult m)) =
           (heap m)(p := (heap m p)\<lparr>Setting := (Setting (heap m p))\<lparr>Disabled := True\<rparr>\<rparr>) \<and>
         heap (snd (handlePluginEnable env idResult m)) =
           (heap m)(p := (heap m p)\<lparr>Setting := (Setting (heap m p))\<lparr>Disabled := False\<rparr>\<rparr>) \<and>
         (\<forall>p'. p' \<noteq> p \<longrightarrow>
            heap (snd (handlePluginDisable env idResult m)) p' = heap m p' \<and>
            heap (snd (handlePluginEnable env idResult m)) p' = heap m p') \<and>
         instances (snd (handlePluginDisable env idResult m)) = instances m \<and>
         instances (snd (handlePluginEnable env idResult m)) = instances m \<and>
         Instance_SaveSetting_calls (snd (handlePluginDisable env idResult m)) =
           Instance_SaveSetting_calls m @
           [(p, (Setting (heap m p))\<lparr>Disabled := True\<rparr>,
             Instance_SaveSetting env
               ((heap m p)\<lparr>Setting := (Setting (heap m p))\<lparr>Disabled := True\<rparr>\<rparr>))] \<and>
         Instance_SaveSetting_calls (snd (handlePluginEnable env idResult m)) =
           Instance_SaveSetting_calls m @
           [(p, (Setting (heap m p))\<lparr>Disabled := False\<rparr>,
             Instance_SaveSetting env
               ((heap m p)\<lparr>Setting := (Setting (heap m p))\<lparr>Disabled := False\<rparr>\<rparr>))] \<and>
         fst (handlePluginDisable env idResult m) =
           (case Instance_SaveSetting env
                   ((heap m p)\<lparr>Setting := (Setting (heap m p))\<lparr>Disabled := True\<rparr>\<rparr>) of
              None \<Rightarrow> SuccessResponse (DataString [])
            | Some e \<Rightarrow> ErrorResponse (''can't disable plugin: '' @ e)) \<and>
         fst (handlePluginEnable env idResult m) =
           (case Instance_SaveSetting env
                   ((heap m p)\<lparr>Setting := (Setting (heap m p))\<lparr>Disabled := False\<rparr>\<rparr>) of
              None \<Rightarrow> SuccessResponse (DataString [])
            | Some e \<Rightarrow> ErrorResponse (''can't enable plugin: '' @ e))"
    unfolding dis en rd re
    apply (rule exI [of _ p], rule exI [of _ i])
    using i find_instance_Some [OF p]
    by (simp add: set_Disabled_def)
qed

text \<open>
  The theorem at the example manager: a request for an unknown id, and a request for the
  chat plugin at address 1 with a \<open>SaveSetting\<close> that succeeds.
\<close>

theorem handlePluginDisable_Enable_witness:
  "fst (handlePluginDisable ex_router_env None ex_manager) = ErrorResponse ''id is empty'' \<and>
   fst (handlePluginDisable ex_router_env (Some ''unknown'') ex_manager) =
     ErrorResponse ''can't find plugin'' \<and>
   snd (handlePluginDisable ex_router_env (Some ''unknown'') ex_manager) = ex_manager \<and>
   1 \<in> set (instances ex_manager) \<and>
   md_Id (inst_Metadata (heap ex_manager 1)) = ''chat'' \<and>
   find_instance ex_manager ''chat'' = Some 1 \<and>
   Disabled (Setting (heap (snd (handlePluginDisable ex_router_env (Some ''chat'') ex_manager)) 1)) \<and>
   heap (snd (handlePluginDisable ex_router_env (Some ''chat'') ex_manager)) 0 = heap ex_manager 0 \<and>
   fst (handlePluginDisable ex_router_env (Some ''chat'') ex_manager) =
     SuccessResponse (DataString []) \<and>
   Instance_SaveSetting_calls (snd (handlePluginDisable ex_router_env (Some ''chat'') ex_manager)) =
     [(1, \<lparr>Disabled = True, TriggerKeywords = []\<rparr>, None)]"
proof -
  have mem: "1 \<in> set (instances ex_manager)"
    by (simp add: ex_manager_def)
  have ident: "md_Id (inst_Metadata (heap ex_manager 1)) = ''chat''"
    by (simp add: ex_manager_def ex_instance_def)
  have fnd: "find_instance ex_manager ''chat'' = Some 1"
    by (simp add: find_instance_def ex_manager_def ex_instance_def)
  have e1: "fst (handlePluginDisable ex_router_env None ex_manager) = ErrorResponse ''id is empty''"
    by (simp add: handlePluginDisable_def)
  have unknown: "\<forall>q \<in> set (instances ex_manager). md_Id (inst_Metadata (heap ex_manager q)) \<noteq> ''unknown''"
    by (simp add: ex_manager_def ex_instance_def)
  have e2: "fst (handlePluginDisable ex_router_env (Some ''unknown'') ex_manager) =
     ErrorResponse ''can't find plugin''"
    using unknown by (simp add: handlePluginDisable_def find_instance_None [THEN iffD2])
  have e3: "snd (handlePluginDisable ex_router_env (Some ''unknown'') ex_manager) = ex_manager"
    using handlePluginDisable_Enable [of "Some ''unknown''" ex_manager ex_router_env,
        THEN conjunct1] unknown
    by blast
  from handlePluginDisable_Enable [of "Some ''chat''" ex_manager ex_router_env 1,
      THEN conjunct2, rule_format] mem ident
  obtain p i where pi: "i < length (instances ex_manager)" "instances ex_manager ! i = p"
    "md_Id (inst_Metadata (heap ex_manager p)) = ''chat''"
    and res: "Disabled (Setting (heap (snd (handlePluginDisable ex_router_env (Some ''chat'') ex_manager)) p))"
      "\<forall>p'. p' \<noteq> p \<longrightarrow> heap (snd (handlePluginDisable ex_router_env (Some ''chat'') ex_manager)) p' = heap ex_manager p'"
      "Instance_SaveSetting_calls (snd (handlePluginDisable ex_router_env (Some ''chat'') ex_manager)) =
           Instance_SaveSetting_calls ex_manager @
           [(p, (Setting (heap ex_manager p))\<lparr>Disabled := True\<rparr>,
             Instance_SaveSetting ex_router_env
               ((heap ex_manager p)\<lparr>Setting := (Setting (heap ex_manager p))\<lparr>Disabled := True\<rparr>\<rparr>))]"
      "fst (handlePluginDisable ex_router_env (Some ''chat'') ex_manager) =
           (case Instance_SaveSetting ex_router_env
                   ((heap ex_manager p)\<lparr>Setting := (Setting (heap ex_manager p))\<lparr>Disabled := True\<rparr>\<rparr>) of
              None \<Rightarrow> SuccessResponse (DataString [])
            | Some e \<Rightarrow> ErrorResponse (''can't disable plugin: '' @ e))"
    by auto
  have "p = 1"
    using pi by (auto simp: ex_manager_def ex_instance_def less_Suc_eq split: if_splits)
  with res have
    "Disabled (Setting (heap (snd (handlePluginDisable ex_router_env (Some ''chat'') ex_manager)) 1))"
    "heap (snd (handlePluginDisable ex_router_env (Some ''chat'') ex_manager)) 0 = heap ex_manager 0"
    "fst (handlePluginDisable ex_router_env (Some ''chat'') ex_manager) = SuccessResponse (DataString [])"
    "Instance_SaveSetting_calls (snd (handlePluginDisable ex_router_env (Some ''chat'') ex_manager)) =
       [(1, \<lparr>Disabled = True, TriggerKeywords = []\<rparr>, None)]"
    by (simp_all add: ex_router_env_def ex_manager_def ex_instance_def)
  with mem ident fnd e1 e2 e3 show ?thesis by blast
qed




text \<open>
  Claim C10, as stated, at a body whose \<open>query\<close> field is the number 5: the text is valid
  JSON, but a number cannot be decoded into a \<open>PlainQuery\<close>, and the handler writes the
  error of \<open>json.Unmarshal\<close>.
\<close>

theorem handleQueryIcon_counterexample:
  "handleQueryIcon ex_router_env (Some (WellFormed (JNumber ''5''))) ex_manager =
     (ErrorResponse ''json: cannot unmarshal number into Go value of type common.PlainQuery'',
      [''json: cannot unmarshal number into Go value of type common.PlainQuery''])"
  by (simp add: handleQueryIcon_def)

text \<open>
  Claim C10, amended.  The handler of \<open>/query/icon\<close> writes an error response exactly when
  the \<open>query\<close> field is missing or \<open>json.Unmarshal\<close> of its text into a \<open>PlainQuery\<close>
  fails; malformed text fails, and so does a JSON boolean, number, string or array.  When
  the text is decoded, the response is a success: the empty image when \<open>NewQuery\<close> fails,
  when the query is for no plugin instance, or when the icon of the plugin cannot be
  parsed, and the converted icon of the plugin otherwise.
\<close>

theorem handleQueryIcon_responses:
  "((\<exists>msg. fst (handleQueryIcon env queryResult m) = ErrorResponse msg) \<longleftrightarrow>
      queryResult = None \<or>
      (\<exists>txt err. queryResult = Some txt \<and> json_Unmarshal_PlainQuery env txt = Inl err)) \<and>
   (queryResult = Some (Malformed err) \<longrightarrow>
      fst (handleQueryIcon env queryResult m) = ErrorResponse err) \<and>
   (queryResult = Some (WellFormed v) \<and> v \<noteq> JNull \<and> (\<forall>members. v \<noteq> JObject members) \<longrightarrow>
      (\<exists>msg. fst (handleQueryIcon env queryResult m) = ErrorResponse msg)) \<and>
   (queryResult = Some txt \<and> json_Unmarshal_PlainQuery env txt = Inr plainQuery \<longrightarrow>
      fst (handleQueryIcon env queryResult m) =
        SuccessResponse
          (DataImage
             (case NewQuery env m plainQuery of
                Inl newQueryErr \<Rightarrow> WoxImage_zero
              | Inr None \<Rightarrow> WoxImage_zero
              | Inr (Some pluginInstance) \<Rightarrow>
                  (case ParseWoxImage env (md_Icon (inst_Metadata (heap m pluginInstance))) of
                     Inl parseErr \<Rightarrow> WoxImage_zero
                   | Inr iconImg \<Rightarrow>
                       ConvertIcon env iconImg (PluginDirectory (heap m pluginInstance))))))"
proof (intro conjI impI)
  show "(\<exists>msg. fst (handleQueryIcon env queryResult m) = ErrorResponse msg) \<longleftrightarrow>
      queryResult = None \<or>
      (\<exists>txt err. queryResult = Some txt \<and> json_Unmarshal_PlainQuery env txt = Inl err)"
    by (auto simp: handleQueryIcon_def split: option.splits sum.splits)
next
  assume "queryResult = Some (Malformed err)"
  then show "fst (handleQueryIcon env queryResult m) = ErrorResponse err"
    by (simp add: handleQueryIcon_def)
next
  assume "queryResult = Some (WellFormed v) \<and> v \<noteq> JNull \<and> (\<forall>members. v \<noteq> JObject members)"
  then show "\<exists>msg. fst (handleQueryIcon env queryResult m) = ErrorResponse msg"
    by (cases v) (simp_all add: handleQueryIcon_def)
next
  assume "queryResult = Some txt \<and> json_Unmarshal_PlainQuery env txt = Inr plainQuery"
  then show "fst (handleQueryIcon env queryResult m) =
        SuccessResponse
          (DataImage
             (case NewQuery env m plainQuery of
                Inl newQueryErr \<Rightarrow> WoxImage_zero
              | Inr None \<Rightarrow> WoxImage_zero
              | Inr (Some pluginInstance) \<Rightarrow>
                  (case ParseWoxImage env (md_Icon (inst_Metadata (heap m pluginInstance))) of
                     Inl parseErr \<Rightarrow> WoxImage_zero
                   | Inr iconImg \<Rightarrow>
                       ConvertIcon env iconImg (PluginDirectory (heap m pluginInstance)))))"
    by (simp add: handleQueryIcon_def split: option.splits sum.splits)
qed

text \<open>
  The theorem at the example manager: a query for the chat plugin gives its icon, and the
  number 5 gives an error.
\<close>

theorem handleQueryIcon_responses_witness:
  "json_Unmarshal_PlainQuery ex_router_env
     (WellFormed (JObject [(''QueryText'', JString ''chat '')])) =
     Inr \<lparr>QueryType = ''input'', QueryText = ''chat '', QuerySelection = Selection_zero\<rparr> \<and>
   fst (handleQueryIcon ex_router_env
          (Some (WellFormed (JObject [(''QueryText'', JString ''chat '')]))) ex_manager) =
     SuccessResponse (DataImage \<lparr>ImageType = ''emoji'', ImageData = ''chat''\<rparr>) \<and>
   (\<exists>msg. fst (handleQueryIcon ex_router_env (Some (WellFormed (JNumber ''5''))) ex_manager) =
      ErrorResponse msg)"
proof -
  let ?txt = "WellFormed (JObject [(''QueryText'', JString ''chat '')])"
  let ?pq = "\<lparr>QueryType = ''input'', QueryText = ''chat '', QuerySelection = Selection_zero\<rparr>"
  have dec: "json_Unmarshal_PlainQuery ex_router_env ?txt = Inr ?pq"
    by (simp add: ex_router_env_def)
  from handleQueryIcon_responses [of ex_router_env "Some ?txt" ex_manager _ _ ?txt ?pq] dec
  have "fst (handleQueryIcon ex_router_env (Some ?txt) ex_manager) =
        SuccessResponse
          (DataImage
             (case NewQuery ex_router_env ex_manager ?pq of
                Inl newQueryErr \<Rightarrow> WoxImage_zero
              | Inr None \<Rightarrow> WoxImage_zero
              | Inr (Some pluginInstance) \<Rightarrow>
                  (case ParseWoxImage ex_router_env
                          (md_Icon (inst_Metadata (heap ex_manager pluginInstance))) of
                     Inl parseErr \<Rightarrow> WoxImage_zero
                   | Inr iconImg \<Rightarrow>
                       ConvertIcon ex_router_env iconImg
                         (PluginDirectory (heap ex_manager pluginInstance)))))"
    by blast
  also have "\<dots> = SuccessResponse (DataImage \<lparr>ImageType = ''emoji'', ImageData = ''chat''\<rparr>)"
    by (simp add: ex_router_env_def ex_manager_def ex_instance_def)
  finally have ok: "fst (handleQueryIcon ex_router_env (Some ?txt) ex_manager) =
     SuccessResponse (DataImage \<lparr>ImageType = ''emoji'', ImageData = ''chat''\<rparr>)" .
  from handleQueryIcon_responses [of ex_router_env "Some (WellFormed (JNumber ''5''))" ex_manager
      _ "JNumber ''5''"]
  have "\<exists>msg. fst (handleQueryIcon ex_router_env (Some (WellFormed (JNumber ''5''))) ex_manager) =
      ErrorResponse msg"
    by simp
  with dec ok show ?thesis by blast
qed

end
